theory Spec2Isabelle
  imports Complex_Main "HOL-Library.Word" "HOL-Library.AList"
begin

unbundle bit_operations_syntax

section \<open>Python values, strings and dictionaries\<close>

text \<open>
  The two modules verified here are \<^verbatim>\<open>python/agents/causal_agent.py\<close> (class
  \<^verbatim>\<open>CausalAgent\<close>) and \<^verbatim>\<open>src/orchestrator.py\<close> (class \<^verbatim>\<open>CognitiveOrchestrator\<close>).
  Their inputs arrive from a JSON request body, so a value is one of the JSON shapes.
  A \<^verbatim>\<open>dict\<close> is an association list in insertion order, written with
  \<^const>\<open>AList.update\<close> (an existing key keeps its place, a new key goes to the end).
  Time stamps (\<^verbatim>\<open>datetime.now().isoformat()\<close>) are arguments of the operations.
  A \<^verbatim>\<open>float\<close> is modelled by the rational number it approximates.

  A Python \<^verbatim>\<open>str\<close> is a sequence of code points. The orchestrator only lower-cases
  a command and looks for substrings in it; there a \<^verbatim>\<open>str\<close> is a \<^typ>\<open>string\<close>, whose
  characters are the code points below 256. The agent encodes its command as UTF-8, which
  fails on a surrogate code point, so the command of the agent and every text value the
  agent stores is a list of code points of any size (\<open>pystr\<close>; Python's code points end
  at U+10FFFF, and nothing here depends on that bound). Node ids, dictionary keys and time
  stamps are \<^typ>\<open>string\<close>s in both classes. The type of values is therefore parametric in
  the type of its strings.
\<close>

datatype 's pyval =
    PNone
  | PBool bool
  | PInt int
  | PStr 's
  | PList "'s pyval list"
  | PDict "(string \<times> 's pyval) list"

datatype py_error = AttributeError | TypeError | KeyError string | UnicodeEncodeError

type_synonym pystr = "nat list"

type_synonym attrs = "(string \<times> pystr pyval) list"

text \<open>\<^verbatim>\<open>isinstance(v, str)\<close>, and whether \<open>v\<close> is a mapping.\<close>

definition is_str :: "'s pyval \<Rightarrow> bool" where
  "is_str v = (case v of PStr text \<Rightarrow> True | _ \<Rightarrow> False)"

definition is_mapping :: "'s pyval \<Rightarrow> bool" where
  "is_mapping v = (case v of PDict items \<Rightarrow> True | _ \<Rightarrow> False)"

text \<open>\<^verbatim>\<open>d.update(other)\<close> and \<^verbatim>\<open>{**other}\<close>: the items are stored one by one.\<close>

definition dict_update :: "('k \<times> 'v) list \<Rightarrow> ('k \<times> 'v) list \<Rightarrow> ('k \<times> 'v) list" where
  "dict_update d other = fold (\<lambda>(k, v). AList.update k v) other d"

definition dict_keys :: "('k \<times> 'v) list \<Rightarrow> 'k list" where
  "dict_keys d = map fst d"

text \<open>\<^verbatim>\<open>str.lower()\<close> on code points below 256: A-Z and the accented capitals
  U+00C0..U+00DE (without the multiplication sign U+00D7) move up by 32.\<close>

definition lower_char :: "char \<Rightarrow> char" where
  "lower_char c = (let n = (of_char c :: nat) in
     if (65 \<le> n \<and> n \<le> 90) \<or> (192 \<le> n \<and> n \<le> 222 \<and> n \<noteq> 215)
     then char_of (n + 32) else c)"

definition py_lower :: "string \<Rightarrow> string" where
  "py_lower s = map lower_char s"

text \<open>\<^verbatim>\<open>word in command\<close> on strings: \<open>word\<close> occurs as a contiguous substring.\<close>

fun py_in :: "'a list \<Rightarrow> 'a list \<Rightarrow> bool" where
  "py_in word [] = (word = [])"
| "py_in word (c # cs) = (take (length word) (c # cs) = word \<or> py_in word cs)"

text \<open>\<^verbatim>\<open>any(word in command for word in words)\<close>.\<close>

definition any_in :: "'a list list \<Rightarrow> 'a list \<Rightarrow> bool" where
  "any_in words command = list_ex (\<lambda>word. py_in word command) words"

text \<open>\<^verbatim>\<open>str.encode()\<close>: UTF-8, one byte below U+0080 and two bytes up to U+00FF.\<close>

definition utf8_char :: "char \<Rightarrow> 8 word list" where
  "utf8_char c = (let n = (of_char c :: nat) in
     if n < 128 then [word_of_nat n]
     else [word_of_nat (192 + n div 64), word_of_nat (128 + n mod 64)])"

definition encode :: "string \<Rightarrow> 8 word list" where
  "encode s = concat (map utf8_char s)"

text \<open>
  The same three operations on lists of code points. \<open>cps\<close> gives the code points of a
  \<^typ>\<open>string\<close>.

  \<^verbatim>\<open>str.lower()\<close> on a text whose code points are all below 256 is the map above.
  On any other text it follows the case tables of the Unicode database of the interpreter,
  which are not part of this repository: the function \<open>unicode_lower\<close>, from texts to
  texts, is an argument of everything that lower-cases a \<open>pystr\<close>.

  \<^verbatim>\<open>str.encode()\<close> (UTF-8, strict) writes one to four bytes per code point and raises
  UnicodeEncodeError at a surrogate (U+D800 to U+DFFF), which a \<^verbatim>\<open>str\<close> parsed from JSON
  can hold.
\<close>

definition cps :: "string \<Rightarrow> pystr" where
  "cps s = map of_char s"

definition lower_cp :: "nat \<Rightarrow> nat" where
  "lower_cp n =
     (if (65 \<le> n \<and> n \<le> 90) \<or> (192 \<le> n \<and> n \<le> 222 \<and> n \<noteq> 215) then n + 32 else n)"

definition lower_text :: "(pystr \<Rightarrow> pystr) \<Rightarrow> pystr \<Rightarrow> pystr" where
  "lower_text unicode_lower s =
     (if list_all (\<lambda>c. c < 256) s then map lower_cp s else unicode_lower s)"

definition utf8_cp :: "nat \<Rightarrow> py_error + 8 word list" where
  "utf8_cp c =
     (if c < 0x80 then Inr [word_of_nat c]
      else if c < 0x800 then Inr [word_of_nat (0xC0 + c div 64), word_of_nat (0x80 + c mod 64)]
      else if 0xD800 \<le> c \<and> c < 0xE000 then Inl UnicodeEncodeError
      else if c < 0x10000 then
        Inr [word_of_nat (0xE0 + c div 4096),
             word_of_nat (0x80 + c div 64 mod 64),
             word_of_nat (0x80 + c mod 64)]
      else
        Inr [word_of_nat (0xF0 + c div 262144),
             word_of_nat (0x80 + c div 4096 mod 64),
             word_of_nat (0x80 + c div 64 mod 64),
             word_of_nat (0x80 + c mod 64)])"

fun encode_text :: "pystr \<Rightarrow> py_error + 8 word list" where
  "encode_text [] = Inr []"
| "encode_text (c # cs) =
     (case utf8_cp c of
        Inl e \<Rightarrow> Inl e
      | Inr b \<Rightarrow> (case encode_text cs of Inl e \<Rightarrow> Inl e | Inr bs \<Rightarrow> Inr (b @ bs)))"

text \<open>Whether a text holds a surrogate code point.\<close>

definition has_surrogate :: "pystr \<Rightarrow> bool" where
  "has_surrogate s = list_ex (\<lambda>c. 0xD800 \<le> c \<and> c < 0xE000) s"

definition hexdigit :: "nat \<Rightarrow> char" where
  "hexdigit n = ''0123456789abcdef'' ! (n mod 16)"

definition hex_digits :: "char set" where
  "hex_digits = set ''0123456789abcdef''"

text \<open>\<^verbatim>\<open>repr\<close> of a string, and \<^verbatim>\<open>str\<close> of a list of strings (what
  \<^verbatim>\<open>str(self.graph.nodes)\<close> prints): double quotes only when the string has a single
  quote and no double quote; the quote and the backslash are escaped, tab, newline and
  carriage return are written \<^verbatim>\<open>\t \n \r\<close>, every other code point that is not
  printable is written \<^verbatim>\<open>\xhh\<close>.\<close>

definition printable :: "char \<Rightarrow> bool" where
  "printable c = (let n = (of_char c :: nat) in (32 \<le> n \<and> n < 127) \<or> (161 \<le> n \<and> n \<noteq> 173))"

definition repr_char :: "char \<Rightarrow> char \<Rightarrow> string" where
  "repr_char quote c =
     (if c = quote \<or> c = CHR 0x5C then [CHR 0x5C, c]
      else if c = CHR 0x09 then [CHR 0x5C, CHR ''t'']
      else if c = CHR 0x0A then [CHR 0x5C, CHR ''n'']
      else if c = CHR 0x0D then [CHR 0x5C, CHR ''r'']
      else if printable c then [c]
      else [CHR 0x5C, CHR ''x'', hexdigit (of_char c div 16), hexdigit (of_char c)])"

definition py_repr :: "string \<Rightarrow> string" where
  "py_repr s =
     (let quote = (if CHR 0x27 \<in> set s \<and> CHR 0x22 \<notin> set s then CHR 0x22 else CHR 0x27)
      in [quote] @ concat (map (repr_char quote) s) @ [quote])"

fun join :: "string \<Rightarrow> string list \<Rightarrow> string" where
  "join sep [] = []"
| "join sep [x] = x"
| "join sep (x # y # ys) = x @ sep @ join sep (y # ys)"

definition str_list :: "string list \<Rightarrow> string" where
  "str_list xs = ''['' @ join '', '' (map py_repr xs) @ '']''"

section \<open>hashlib.sha256\<close>

text \<open>
  \<^verbatim>\<open>hashlib.sha256(data).hexdigest()\<close>, written out after FIPS 180-4: the message is
  padded to a multiple of 64 bytes, every block is expanded to 64 words and run through
  64 rounds, and the eight state words are printed as 64 lower-case hexadecimal digits.
\<close>

definition sha_k :: "32 word list" where
  "sha_k =
     [0x428a2f98, 0x71374491, 0xb5c0fbcf, 0xe9b5dba5] @
     [0x3956c25b, 0x59f111f1, 0x923f82a4, 0xab1c5ed5] @
     [0xd807aa98, 0x12835b01, 0x243185be, 0x550c7dc3] @
     [0x72be5d74, 0x80deb1fe, 0x9bdc06a7, 0xc19bf174] @
     [0xe49b69c1, 0xefbe4786, 0x0fc19dc6, 0x240ca1cc] @
     [0x2de92c6f, 0x4a7484aa, 0x5cb0a9dc, 0x76f988da] @
     [0x983e5152, 0xa831c66d, 0xb00327c8, 0xbf597fc7] @
     [0xc6e00bf3, 0xd5a79147, 0x06ca6351, 0x14292967] @
     [0x27b70a85, 0x2e1b2138, 0x4d2c6dfc, 0x53380d13] @
     [0x650a7354, 0x766a0abb, 0x81c2c92e, 0x92722c85] @
     [0xa2bfe8a1, 0xa81a664b, 0xc24b8b70, 0xc76c51a3] @
     [0xd192e819, 0xd6990624, 0xf40e3585, 0x106aa070] @
     [0x19a4c116, 0x1e376c08, 0x2748774c, 0x34b0bcb5] @
     [0x391c0cb3, 0x4ed8aa4a, 0x5b9cca4f, 0x682e6ff3] @
     [0x748f82ee, 0x78a5636f, 0x84c87814, 0x8cc70208] @
     [0x90befffa, 0xa4506ceb, 0xbef9a3f7, 0xc67178f2]"

definition sha_h0 :: "32 word list" where
  "sha_h0 = [0x6a09e667, 0xbb67ae85, 0x3c6ef372, 0xa54ff53a] @
            [0x510e527f, 0x9b05688c, 0x1f83d9ab, 0x5be0cd19]"

definition big_sigma0 :: "32 word \<Rightarrow> 32 word" where
  "big_sigma0 x = word_rotr 2 x XOR word_rotr 13 x XOR word_rotr 22 x"

definition big_sigma1 :: "32 word \<Rightarrow> 32 word" where
  "big_sigma1 x = word_rotr 6 x XOR word_rotr 11 x XOR word_rotr 25 x"

definition small_sigma0 :: "32 word \<Rightarrow> 32 word" where
  "small_sigma0 x = word_rotr 7 x XOR word_rotr 18 x XOR drop_bit 3 x"

definition small_sigma1 :: "32 word \<Rightarrow> 32 word" where
  "small_sigma1 x = word_rotr 17 x XOR word_rotr 19 x XOR drop_bit 10 x"

definition ch :: "32 word \<Rightarrow> 32 word \<Rightarrow> 32 word \<Rightarrow> 32 word" where
  "ch x y z = (x AND y) XOR (NOT x AND z)"

definition maj :: "32 word \<Rightarrow> 32 word \<Rightarrow> 32 word \<Rightarrow> 32 word" where
  "maj x y z = (x AND y) XOR (x AND z) XOR (y AND z)"

definition sha_pad :: "8 word list \<Rightarrow> 8 word list" where
  "sha_pad m = (let l = length m; z = (55 + 64 - l mod 64) mod 64 in
     m @ [0x80] @ replicate z 0 @
     map (\<lambda>i. ucast (drop_bit (8 * (7 - i)) (word_of_nat (8 * l) :: 64 word))) [0..<8])"

fun be_words :: "8 word list \<Rightarrow> 32 word list" where
  "be_words (a # b # c # d # r) =
     (push_bit 24 (ucast a) OR push_bit 16 (ucast b) OR push_bit 8 (ucast c) OR ucast d)
       # be_words r"
| "be_words _ = []"

fun schedule :: "nat \<Rightarrow> 32 word list \<Rightarrow> 32 word list" where
  "schedule 0 w = w"
| "schedule (Suc n) w = (let t = length w in
     schedule n (w @ [small_sigma1 (w ! (t - 2)) + w ! (t - 7)
                       + small_sigma0 (w ! (t - 15)) + w ! (t - 16)]))"

fun sha_round :: "32 word list \<Rightarrow> 32 word \<times> 32 word \<Rightarrow> 32 word list" where
  "sha_round [a, b, c, d, e, f, g, h] (k, w) =
     (let t1 = h + big_sigma1 e + ch e f g + k + w; t2 = big_sigma0 a + maj a b c
      in [t1 + t2, a, b, c, d + t1, e, f, g])"
| "sha_round v _ = v"

definition compress :: "32 word list \<Rightarrow> 8 word list \<Rightarrow> 32 word list" where
  "compress hs block =
     map2 (+) hs (fold (\<lambda>kw v. sha_round v kw) (zip sha_k (schedule 48 (be_words block))) hs)"

function blocks :: "8 word list \<Rightarrow> 8 word list list" where
  "blocks m = (if m = [] then [] else take 64 m # blocks (drop 64 m))"
  by pat_completeness auto
termination
  by (relation "measure length") auto

declare blocks.simps [simp del]

definition sha256 :: "8 word list \<Rightarrow> 32 word list" where
  "sha256 m = fold (\<lambda>b hs. compress hs b) (blocks (sha_pad m)) sha_h0"

definition hex_word :: "32 word \<Rightarrow> string" where
  "hex_word w = map (\<lambda>i. hexdigit (unat (drop_bit (4 * (7 - i)) w AND 15))) [0..<8]"

definition hexdigest :: "32 word list \<Rightarrow> string" where
  "hexdigest hs = concat (map hex_word hs)"

text \<open>\<^verbatim>\<open>hashlib.sha256(data).hexdigest()[:8]\<close>, used for node ids and the graph hash;
  \<open>sha8\<close> is the digest of a \<^typ>\<open>string\<close>, which always encodes.\<close>

definition sha8_bytes :: "8 word list \<Rightarrow> string" where
  "sha8_bytes encoded = take 8 (hexdigest (sha256 encoded))"

definition sha8 :: "string \<Rightarrow> string" where
  "sha8 s = sha8_bytes (encode s)"

section \<open>networkx.DiGraph\<close>

text \<open>
  The part of \<^verbatim>\<open>networkx.DiGraph\<close> the agent uses. \<open>g_nodes\<close> is the node dictionary
  (node id to attribute dictionary), \<open>g_edges\<close> the edge dictionary keyed by the ordered
  pair (source, target); both keep insertion order.
\<close>

record digraph =
  g_nodes :: "(string \<times> attrs) list"
  g_edges :: "((string \<times> string) \<times> attrs) list"

definition has_node :: "digraph \<Rightarrow> string \<Rightarrow> bool" where
  "has_node g n = (n \<in> set (dict_keys (g_nodes g)))"

text \<open>\<^verbatim>\<open>G.add_node(n, **attr)\<close>: a new node starts with an empty attribute dictionary;
  the attributes are then merged into the node's dictionary.\<close>

definition add_node :: "string \<Rightarrow> attrs \<Rightarrow> digraph \<Rightarrow> digraph" where
  "add_node n attr g =
     g\<lparr>g_nodes := AList.update n
          (dict_update (case map_of (g_nodes g) n of None \<Rightarrow> [] | Some d \<Rightarrow> d) attr)
          (g_nodes g)\<rparr>"

text \<open>\<^verbatim>\<open>G.add_edge(u, v, **attr)\<close>: both end points are created (with no attributes) when
  they are missing; the attributes are merged into the dictionary of the edge.\<close>

definition ensure_node :: "string \<Rightarrow> digraph \<Rightarrow> digraph" where
  "ensure_node n g = (if has_node g n then g else g\<lparr>g_nodes := g_nodes g @ [(n, [])]\<rparr>)"

definition add_edge :: "string \<Rightarrow> string \<Rightarrow> attrs \<Rightarrow> digraph \<Rightarrow> digraph" where
  "add_edge u v attr g =
     (let g1 = ensure_node v (ensure_node u g)
      in g1\<lparr>g_edges := AList.update (u, v)
            (dict_update (case map_of (g_edges g1) (u, v) of None \<Rightarrow> [] | Some d \<Rightarrow> d) attr)
            (g_edges g1)\<rparr>)"

text \<open>\<^verbatim>\<open>G.adj[v]\<close> in order, and the attribute dictionaries of the edges leaving \<open>v\<close>
  (\<^verbatim>\<open>[G.edges[e] for e in G.edges(v)]\<close>).\<close>

definition successors :: "digraph \<Rightarrow> string \<Rightarrow> string list" where
  "successors g v = map (\<lambda>e. snd (fst e)) (filter (\<lambda>e. fst (fst e) = v) (g_edges g))"

definition out_edge_data :: "digraph \<Rightarrow> string \<Rightarrow> attrs list" where
  "out_edge_data g v = map snd (filter (\<lambda>e. fst (fst e) = v) (g_edges g))"

section \<open>CausalAgent\<close>

text \<open>The state of the agent is its graph and its fact registry. The attribute
  \<^verbatim>\<open>coherence_threshold\<close> is set once and never read, and is left out.\<close>

record causal_agent =
  graph :: digraph
  facts_db :: "(string \<times> attrs) list"

definition base_facts :: "(string \<times> attrs) list" where
  "base_facts = [
     (''mom_birthday'', [
        (''content'', PStr (cps ''Mom's birthday is 2025-05-27'')),
        (''timestamp'', PStr (cps ''2025-09-20T00:00:00Z'')),
        (''type'', PStr (cps ''temporal'')),
        (''attribution'', PStr (cps ''@AxiomHive''))]),
     (''gym_move'', [
        (''content'', PStr (cps ''Planning gym membership and SF move'')),
        (''timestamp'', PStr (cps ''2025-09-20T00:00:00Z'')),
        (''type'', PStr (cps ''action'')),
        (''attribution'', PStr (cps ''@devdollzai''))]),
     (''ecosystem_bind'', [
        (''content'', PStr (cps ''AxiomHive ecosystem binding active'')),
        (''timestamp'', PStr (cps ''2025-09-20T00:00:00Z'')),
        (''type'', PStr (cps ''system'')),
        (''attribution'', PStr (cps ''@AxiomHive @devdollzai''))])]"

definition initialize_base_facts :: "causal_agent \<Rightarrow> causal_agent" where
  "initialize_base_facts a =
     fold (\<lambda>(fact_id, fact_data) a.
            a\<lparr>facts_db := AList.update fact_id fact_data (facts_db a),
              graph := add_node fact_id fact_data (graph a)\<rparr>)
          base_facts a"

text \<open>\<^verbatim>\<open>CausalAgent()\<close>: the state after \<^verbatim>\<open>__init__\<close>.\<close>

definition init_agent :: causal_agent where
  "init_agent = initialize_base_facts
     \<lparr>graph = \<lparr>g_nodes = [], g_edges = []\<rparr>, facts_db = []\<rparr>"

text \<open>Lines 56 to 63 of \<^verbatim>\<open>build_4d_graph\<close>: \<^verbatim>\<open>command.encode()\<close> raises
  UnicodeEncodeError when the command holds a surrogate, before anything is written.
  Otherwise the node id is the first 8 hexadecimal digits of the SHA-256 of the encoded
  command, and the command is added (or merged) as a node. The specification calls this
  step \<^verbatim>\<open>add_command_node\<close>.\<close>

definition add_command_node :: "string \<Rightarrow> pystr \<Rightarrow> digraph \<Rightarrow> py_error + string \<times> digraph" where
  "add_command_node now command g =
     (case encode_text command of
        Inl e \<Rightarrow> Inl e
      | Inr encoded \<Rightarrow>
          (let command_hash = sha8_bytes encoded
           in Inr (command_hash,
                   add_node command_hash
                     [(''content'', PStr command),
                      (''timestamp'', PStr (cps now)),
                      (''type'', PStr (cps ''command'')),
                      (''attribution'', PStr (cps ''@AxiomHive @devdollzai''))] g)))"

definition build_causal_relationships ::
  "(pystr \<Rightarrow> pystr) \<Rightarrow> string \<Rightarrow> pystr \<Rightarrow> digraph \<Rightarrow> digraph" where
  "build_causal_relationships unicode_lower node_id command g =
     (let command_lower = lower_text unicode_lower command;
          g1 = (if py_in (cps ''birthday'') command_lower \<or> py_in (cps ''date'') command_lower
                then add_edge node_id ''mom_birthday'' [(''relation'', PStr (cps ''temporal''))] g
                else g);
          g2 = (if any_in [cps ''move'', cps ''plan'', cps ''gym'', cps ''sf''] command_lower
                then add_edge node_id ''gym_move'' [(''relation'', PStr (cps ''action''))] g1
                else g1)
      in (if any_in [cps ''ecosystem'', cps ''bind'', cps ''nexus'', cps ''4d''] command_lower
          then add_edge node_id ''ecosystem_bind'' [(''relation'', PStr (cps ''system''))] g2
          else g2))"

definition calculate_coherence :: "digraph \<Rightarrow> rat" where
  "calculate_coherence g =
     (if length (g_nodes g) < 2 then 0
      else (let connectivity = of_nat (length (g_edges g)) / of_nat (length (g_nodes g))
            in min connectivity 1))"

record graph_stats =
  coherence :: rat
  nodes :: nat
  edges :: nat

record build_result = graph_stats +
  graph_hash :: string

definition build_4d_graph ::
  "(pystr \<Rightarrow> pystr) \<Rightarrow> string \<Rightarrow> pystr \<Rightarrow> causal_agent
     \<Rightarrow> (py_error + build_result) \<times> causal_agent" where
  "build_4d_graph unicode_lower now command a =
     (case add_command_node now command (graph a) of
        Inl e \<Rightarrow> (Inl e, a)
      | Inr (command_hash, g1) \<Rightarrow>
          (let g2 = build_causal_relationships unicode_lower command_hash command g1
           in (Inr \<lparr>coherence = calculate_coherence g2,
                    nodes = length (g_nodes g2),
                    edges = length (g_edges g2),
                    graph_hash = sha8 (str_list (dict_keys (g_nodes g2)))\<rparr>,
               a\<lparr>graph := g2\<rparr>)))"

text \<open>
  \<^verbatim>\<open>integrate_facts\<close>. A payload without \<^verbatim>\<open>.items()\<close> raises AttributeError before
  anything is written. In the loop a string becomes \<^verbatim>\<open>{"content": s}\<close>, a dictionary is
  taken as it is, and any other value raises TypeError at \<^verbatim>\<open>**fact_content\<close>. The
  registry entry is written first; the call \<^verbatim>\<open>add_node(fact_id, **entry)\<close> that follows
  raises TypeError when the entry has a key named like a parameter of
  \<^verbatim>\<open>add_node(self, node_for_adding, **attr)\<close>. An exception leaves the entries already
  processed in place. \<open>clock i\<close> is the time read for the \<open>i\<close>-th entry.
\<close>

definition as_mapping :: "pystr pyval \<Rightarrow> attrs option" where
  "as_mapping fact_content =
     (case fact_content of
        PStr s \<Rightarrow> Some [(''content'', PStr s)]
      | PDict d \<Rightarrow> Some d
      | _ \<Rightarrow> None)"

definition fact_entry :: "string \<Rightarrow> attrs \<Rightarrow> attrs" where
  "fact_entry now fact_content =
     dict_update [] (fact_content @
       [(''timestamp'', PStr (cps now)),
        (''attribution'', (case map_of fact_content ''attribution'' of
                             Some v \<Rightarrow> v
                           | None \<Rightarrow> PStr (cps ''@AxiomHive @devdollzai'')))])"

definition kwargs_clash :: "attrs \<Rightarrow> bool" where
  "kwargs_clash attr = (''self'' \<in> set (dict_keys attr) \<or> ''node_for_adding'' \<in> set (dict_keys attr))"

fun integrate_loop ::
  "(nat \<Rightarrow> string) \<Rightarrow> nat \<Rightarrow> (string \<times> pystr pyval) list \<Rightarrow> string list \<Rightarrow> causal_agent
     \<Rightarrow> (py_error + string list) \<times> causal_agent" where
  "integrate_loop clock i [] processed_facts a = (Inr processed_facts, a)"
| "integrate_loop clock i ((fact_id, fact_content) # rest) processed_facts a =
     (case as_mapping fact_content of
        None \<Rightarrow> (Inl TypeError, a)
      | Some d \<Rightarrow>
          (let entry = fact_entry (clock i) d;
               a1 = a\<lparr>facts_db := AList.update fact_id entry (facts_db a)\<rparr>
           in if kwargs_clash entry then (Inl TypeError, a1)
              else integrate_loop clock (Suc i) rest (processed_facts @ [fact_id])
                     (a1\<lparr>graph := add_node fact_id entry (graph a1)\<rparr>)))"

definition integrate_facts ::
  "(nat \<Rightarrow> string) \<Rightarrow> pystr pyval \<Rightarrow> causal_agent \<Rightarrow> (py_error + string list) \<times> causal_agent" where
  "integrate_facts clock facts_data a =
     (case facts_data of
        PDict items \<Rightarrow> integrate_loop clock 0 items [] a
      | _ \<Rightarrow> (Inl AttributeError, a))"

record facts_view =
  facts :: "(string \<times> attrs) list"
  stats :: graph_stats
  timestamp :: string

text \<open>\<^verbatim>\<open>get_facts\<close> reads the state and changes nothing.\<close>

definition get_facts :: "string \<Rightarrow> causal_agent \<Rightarrow> facts_view" where
  "get_facts now a =
     \<lparr>facts = facts_db a,
      stats = \<lparr>coherence = calculate_coherence (graph a),
                nodes = length (g_nodes (graph a)),
                edges = length (g_edges (graph a))\<rparr>,
      timestamp = now\<rparr>"

text \<open>
  \<^verbatim>\<open>networkx.single_source_shortest_path(G, source, cutoff)\<close>: a breadth-first search
  by levels that stops after \<open>cutoff\<close> levels. It returns a dictionary from every node
  found to the path that reached it, in the order the nodes were found. Each member of a
  level is kept together with its path.
\<close>

type_synonym paths = "(string \<times> string list) list"

fun scan_adj :: "string list \<Rightarrow> string list \<Rightarrow> paths \<Rightarrow> paths \<Rightarrow> paths \<times> paths" where
  "scan_adj pv [] paths nextlevel = (paths, nextlevel)"
| "scan_adj pv (w # ws) paths nextlevel =
     (if w \<in> set (dict_keys paths) then scan_adj pv ws paths nextlevel
      else scan_adj pv ws (paths @ [(w, pv @ [w])]) (nextlevel @ [(w, pv @ [w])]))"

fun scan_level :: "digraph \<Rightarrow> paths \<Rightarrow> paths \<Rightarrow> paths \<Rightarrow> paths \<times> paths" where
  "scan_level g [] paths nextlevel = (paths, nextlevel)"
| "scan_level g ((v, pv) # thislevel) paths nextlevel =
     (case scan_adj pv (successors g v) paths nextlevel of
        (paths', nextlevel') \<Rightarrow> scan_level g thislevel paths' nextlevel')"

function bfs_levels :: "digraph \<Rightarrow> int \<Rightarrow> int \<Rightarrow> paths \<Rightarrow> paths \<Rightarrow> paths" where
  "bfs_levels g cutoff level nextlevel paths =
     (if nextlevel \<noteq> [] \<and> cutoff > level
      then (case scan_level g nextlevel paths [] of
              (paths', nextlevel') \<Rightarrow> bfs_levels g cutoff (level + 1) nextlevel' paths')
      else paths)"
  by pat_completeness auto
termination
  by (relation "measure (\<lambda>(g, cutoff, level, nextlevel, paths). nat (cutoff - level))") auto

declare bfs_levels.simps [simp del]

definition single_source_shortest_path :: "digraph \<Rightarrow> string \<Rightarrow> int \<Rightarrow> paths" where
  "single_source_shortest_path g source cutoff =
     bfs_levels g cutoff 0 [(source, [source])] [(source, [source])]"

text \<open>
  \<^verbatim>\<open>get_causal_chain\<close>. The loop \<^verbatim>\<open>for path in nx.single_source_shortest_path(...)\<close>
  runs over the keys of the returned dictionary, so \<open>path\<close> is a node id (a string), and
  \<^verbatim>\<open>for node in path\<close> runs over its characters; \<^verbatim>\<open>self.graph.nodes[node]\<close> raises
  KeyError when the one-character string is not a node.
\<close>

record chain_item =
  node :: string
  data :: attrs
  relations :: "attrs list"

fun chain_of :: "digraph \<Rightarrow> string \<Rightarrow> py_error + chain_item list" where
  "chain_of g [] = Inr []"
| "chain_of g (c # cs) =
     (case map_of (g_nodes g) [c] of
        None \<Rightarrow> Inl (KeyError [c])
      | Some d \<Rightarrow>
          (case chain_of g cs of
             Inl e \<Rightarrow> Inl e
           | Inr chain \<Rightarrow> Inr (\<lparr>node = [c], data = d, relations = out_edge_data g [c]\<rparr> # chain)))"

fun chains_of :: "digraph \<Rightarrow> string list \<Rightarrow> py_error + chain_item list list" where
  "chains_of g [] = Inr []"
| "chains_of g (path # rest) =
     (case chain_of g path of
        Inl e \<Rightarrow> Inl e
      | Inr chain \<Rightarrow>
          (case chains_of g rest of
             Inl e \<Rightarrow> Inl e
           | Inr done_chains \<Rightarrow> Inr (chain # done_chains)))"

definition get_causal_chain :: "string \<Rightarrow> int \<Rightarrow> causal_agent \<Rightarrow> py_error + chain_item list list" where
  "get_causal_chain start_node max_depth a =
     (if \<not> has_node (graph a) start_node then Inr []
      else chains_of (graph a)
             (dict_keys (single_source_shortest_path (graph a) start_node max_depth)))"

text \<open>The states the agent can be in: the constructed agent, and what any call of a
  mutating method leaves behind, whether it returns or raises. \<^const>\<open>get_facts\<close> and
  \<^const>\<open>get_causal_chain\<close> return no state: they leave the agent as it is.\<close>

inductive reachable :: "(pystr \<Rightarrow> pystr) \<Rightarrow> causal_agent \<Rightarrow> bool"
  for unicode_lower :: "pystr \<Rightarrow> pystr" where
  reach_init: "reachable unicode_lower init_agent"
| reach_build:
    "reachable unicode_lower a \<Longrightarrow>
     reachable unicode_lower (snd (build_4d_graph unicode_lower now command a))"
| reach_integrate:
    "reachable unicode_lower a \<Longrightarrow>
     reachable unicode_lower (snd (integrate_facts clock facts_data a))"

text \<open>The states reached through calls of which no \<^const>\<open>integrate_facts\<close> raised.\<close>

inductive returned :: "(pystr \<Rightarrow> pystr) \<Rightarrow> causal_agent \<Rightarrow> bool"
  for unicode_lower :: "pystr \<Rightarrow> pystr" where
  ret_init: "returned unicode_lower init_agent"
| ret_build:
    "returned unicode_lower a \<Longrightarrow>
     returned unicode_lower (snd (build_4d_graph unicode_lower now command a))"
| ret_integrate:
    "returned unicode_lower a \<Longrightarrow> integrate_facts clock facts_data a = (Inr ids, a') \<Longrightarrow>
     returned unicode_lower a'"

text \<open>The node ids of the graph, the keys of the fact registry, and the targets of the
  edges of a graph.\<close>

definition node_ids :: "causal_agent \<Rightarrow> string set" where
  "node_ids a = set (dict_keys (g_nodes (graph a)))"

definition fact_keys :: "causal_agent \<Rightarrow> string set" where
  "fact_keys a = set (dict_keys (facts_db a))"

definition edge_targets :: "digraph \<Rightarrow> string set" where
  "edge_targets g = set (map snd (dict_keys (g_edges g)))"

section \<open>CognitiveOrchestrator\<close>

text \<open>The state of the orchestrator is its context dictionary. The rule table
  \<^verbatim>\<open>decomposition_rules\<close> is built once by \<^verbatim>\<open>_load_decomposition_rules\<close> and never
  written again, so it is a constant here; \<^verbatim>\<open>coherence_threshold\<close> is never read.\<close>

record context_record =
  created :: string
  commands_processed :: int
  coherence_score :: rat
  last_command :: "string pyval option"
  last_processed :: "string option"

record orchestrator =
  contexts :: "(string \<times> context_record) list"

definition load_decomposition_rules :: "(string \<times> string list) list" where
  "load_decomposition_rules = [
     (''planning'', [
        ''Break down into actionable steps'',
        ''Identify dependencies and resources'',
        ''Create timeline and milestones'',
        ''Define success criteria'',
        ''Map potential risks and mitigations'']),
     (''analysis'', [
        ''Gather relevant information'',
        ''Identify key factors and variables'',
        ''Analyze relationships and patterns'',
        ''Draw conclusions and insights'',
        ''Provide recommendations'']),
     (''integration'', [
        ''Map existing ecosystem components'',
        ''Identify integration points'',
        ''Define data flow and interfaces'',
        ''Plan migration strategy'',
        ''Test integration scenarios'']),
     (''temporal'', [
        ''Establish time-based relationships'',
        ''Create temporal sequences'',
        ''Map cause-effect chains'',
        ''Define temporal constraints'',
        ''Plan scheduling and timing''])]"

definition classify_command :: "string \<Rightarrow> string" where
  "classify_command command =
     (if any_in [''plan'', ''move'', ''schedule'', ''organize''] command then ''planning''
      else if any_in [''analyze'', ''examine'', ''study'', ''review''] command then ''analysis''
      else if any_in [''integrate'', ''combine'', ''merge'', ''connect''] command then ''integration''
      else if any_in [''when'', ''time'', ''date'', ''schedule''] command then ''temporal''
      else ''generic'')"

text \<open>All the keywords \<^const>\<open>classify_command\<close> looks for.\<close>

definition classifier_keywords :: "string list" where
  "classifier_keywords =
     [''plan'', ''move'', ''schedule'', ''organize''] @
     [''analyze'', ''examine'', ''study'', ''review''] @
     [''integrate'', ''combine'', ''merge'', ''connect''] @
     [''when'', ''time'', ''date'', ''schedule'']"

definition add_temporal_dimension :: "string \<Rightarrow> string list \<Rightarrow> string list" where
  "add_temporal_dimension command base_items =
     (let t0 = base_items;
          t1 = (if py_in ''birthday'' command
                then t0 @ [''Schedule around 2025-05-27'', ''Plan celebration activities'']
                else t0);
          t2 = (if any_in [''move'', ''relocate'', ''transfer''] command
                then t1 @ [''Create moving timeline'', ''Schedule packing and transportation'']
                else t1)
      in (if py_in ''gym'' command
          then t2 @ [''Research gym membership options'', ''Schedule gym visits and routines'']
          else t2))"

definition add_causal_dimension :: "string \<Rightarrow> string list \<Rightarrow> string list" where
  "add_causal_dimension command temporal_items =
     (let c0 = temporal_items;
          c1 = (if py_in ''ecosystem'' command \<or> py_in ''bind'' command
                then c0 @ [''Map current ecosystem state'',
                           ''Identify binding requirements'',
                           ''Establish causal relationships'',
                           ''Test binding integrity'']
                else c0)
      in (if py_in ''facts'' command
          then c1 @ [''Verify fact accuracy'',
                     ''Establish fact relationships'',
                     ''Integrate with existing knowledge'',
                     ''Update causal graph'']
          else c1))"

definition add_spatial_dimension :: "string \<Rightarrow> string list \<Rightarrow> string list" where
  "add_spatial_dimension command causal_items =
     (let s0 = causal_items;
          s1 = (if py_in ''sf'' command \<or> py_in ''san francisco'' command
                then s0 @ [''Research SF neighborhoods'',
                           ''Map commute routes'',
                           ''Locate essential services'',
                           ''Plan area exploration'']
                else s0)
      in (if py_in ''move'' command
          then s1 @ [''Assess space requirements'',
                     ''Plan furniture placement'',
                     ''Map utility connections'',
                     ''Design room layouts'']
          else s1))"

definition generic_decomposition :: "string \<Rightarrow> string list" where
  "generic_decomposition command = [
     ''Analyze: '' @ command,
     ''Break down requirements for: '' @ command,
     ''Identify resources needed for: '' @ command,
     ''Create action plan for: '' @ command,
     ''Define success metrics for: '' @ command]"

text \<open>\<^verbatim>\<open>_decompose_4d\<close>: \<^verbatim>\<open>command.lower()\<close> raises AttributeError when the command is
  not a string.\<close>

definition decompose_4d :: "string pyval \<Rightarrow> py_error + string list" where
  "decompose_4d command =
     (case command of
        PStr text \<Rightarrow>
          (let command_lower = py_lower text;
               command_type = classify_command command_lower
           in (case map_of load_decomposition_rules command_type of
                 Some base_rules \<Rightarrow>
                   (let temporal_items = add_temporal_dimension command_lower base_rules;
                        causal_items = add_causal_dimension command_lower temporal_items;
                        spatial_items = add_spatial_dimension command_lower causal_items
                    in Inr spatial_items)
               | None \<Rightarrow> Inr (generic_decomposition text)))
      | _ \<Rightarrow> Inl AttributeError)"

text \<open>\<^verbatim>\<open>round(x, ndigits)\<close>: to the nearest multiple of \<open>10^-ndigits\<close>, a tie to the even one.\<close>

definition py_round :: "rat \<Rightarrow> nat \<Rightarrow> rat" where
  "py_round x ndigits =
     (let scaled = x * 10 ^ ndigits;
          fl = \<lfloor>scaled\<rfloor>;
          rest = scaled - of_int fl
      in of_int (if rest < 1 / 2 then fl
                 else if 1 / 2 < rest then fl + 1
                 else if even fl then fl else fl + 1) / 10 ^ ndigits)"

definition calculate_context_coherence :: "string \<Rightarrow> string list \<Rightarrow> orchestrator \<Rightarrow> rat" where
  "calculate_context_coherence context_id decomposed_items s =
     (case map_of (contexts s) context_id of
        None \<Rightarrow> 0
      | Some ctxt \<Rightarrow>
          (let command_count = commands_processed ctxt;
               item_count = int (length decomposed_items);
               coherence = min (of_int (command_count * item_count) / 10) 1
           in py_round coherence 3))"

text \<open>\<^verbatim>\<open>process\<close>. \<open>now\<close> is the time read when the context is created and \<open>now'\<close> the
  time read for \<^verbatim>\<open>last_processed\<close>. The context is created and updated before the
  command is decomposed, so an exception of \<^verbatim>\<open>_decompose_4d\<close> leaves those writes in
  place.\<close>

definition process ::
  "string pyval \<Rightarrow> string \<Rightarrow> string \<Rightarrow> string \<Rightarrow> orchestrator \<Rightarrow> (py_error + string list) \<times> orchestrator" where
  "process command context_id now now' s =
     (let s1 = (if context_id \<in> set (dict_keys (contexts s)) then s
                else s\<lparr>contexts := AList.update context_id
                       \<lparr>created = now, commands_processed = 0, coherence_score = 0,
                        last_command = None, last_processed = None\<rparr> (contexts s)\<rparr>);
          s2 = s1\<lparr>contexts := AList.map_entry context_id
                  (\<lambda>c. c\<lparr>commands_processed := commands_processed c + 1,
                         last_command := Some command,
                         last_processed := Some now'\<rparr>) (contexts s1)\<rparr>
      in (case decompose_4d command of
            Inl e \<Rightarrow> (Inl e, s2)
          | Inr decomposed \<Rightarrow>
              (Inr decomposed,
               s2\<lparr>contexts := AList.map_entry context_id
                    (\<lambda>c. c\<lparr>coherence_score := calculate_context_coherence context_id decomposed s2\<rparr>)
                    (contexts s2)\<rparr>)))"

text \<open>What \<^const>\<open>process\<close> has written to the context before it decomposes the
  command: the context as created when it was absent, with the counter incremented and
  \<^verbatim>\<open>last_command\<close>, \<^verbatim>\<open>last_processed\<close> set.\<close>

definition touched ::
  "string pyval \<Rightarrow> string \<Rightarrow> string \<Rightarrow> context_record option \<Rightarrow> context_record" where
  "touched command now now' before =
     (case before of
        None \<Rightarrow> \<lparr>created = now, commands_processed = 1, coherence_score = 0,
                 last_command = Some command, last_processed = Some now'\<rparr>
      | Some c \<Rightarrow> c\<lparr>commands_processed := commands_processed c + 1,
                   last_command := Some command, last_processed := Some now'\<rparr>)"

definition get_context :: "string \<Rightarrow> orchestrator \<Rightarrow> context_record option" where
  "get_context context_id s = map_of (contexts s) context_id"

definition clear_context :: "string \<Rightarrow> orchestrator \<Rightarrow> bool \<times> orchestrator" where
  "clear_context context_id s =
     (if context_id \<in> set (dict_keys (contexts s))
      then (True, s\<lparr>contexts := AList.delete context_id (contexts s)\<rparr>)
      else (False, s))"

text \<open>\<^verbatim>\<open>CognitiveOrchestrator()\<close>: no context yet.\<close>

definition init_orchestrator :: orchestrator where
  "init_orchestrator = \<lparr>contexts = []\<rparr>"

section \<open>Dictionaries and digests: basic facts\<close>

lemma set_dict_keys_update:
  "set (dict_keys (AList.update k v d)) = insert k (set (dict_keys d))"
  by (simp add: dict_keys_def dom_update)

lemma length_update:
  "length (AList.update k v d) = (if k \<in> set (dict_keys d) then length d else Suc (length d))"
  by (induction d) (auto simp: dict_keys_def)

lemma length_sha_round: "length (sha_round v kw) = length v"
  by (cases "(v, kw)" rule: sha_round.cases) (simp_all add: Let_def)

lemma length_fold_sha_round: "length (fold (\<lambda>kw v. sha_round v kw) kws v) = length v"
  by (induction kws arbitrary: v) (simp_all add: length_sha_round)

lemma length_compress: "length (compress hs block) = length hs"
  by (simp add: compress_def length_fold_sha_round)

lemma length_fold_compress: "length (fold (\<lambda>b hs. compress hs b) bs hs) = length hs"
  by (induction bs arbitrary: hs) (simp_all add: length_compress)

lemma length_sha256: "length (sha256 m) = 8"
  by (simp add: sha256_def length_fold_compress sha_h0_def)

lemma hexdigit_in: "hexdigit n \<in> hex_digits"
proof -
  have "n mod 16 < length ''0123456789abcdef''" by simp
  then show ?thesis unfolding hexdigit_def hex_digits_def by (rule nth_mem)
qed

lemma length_hex_word: "length (hex_word w) = 8"
  by (simp add: hex_word_def)

lemma set_hex_word: "c \<in> set (hex_word w) \<Longrightarrow> c \<in> hex_digits"
  by (auto simp: hex_word_def hexdigit_in)

lemma length_hexdigest: "length (hexdigest hs) = 8 * length hs"
  by (induction hs) (simp_all add: hexdigest_def length_hex_word)

lemma set_hexdigest: "c \<in> set (hexdigest hs) \<Longrightarrow> c \<in> hex_digits"
  by (auto simp: hexdigest_def set_hex_word)

lemma length_sha8_bytes: "length (sha8_bytes bs) = 8"
  by (simp add: sha8_bytes_def length_hexdigest length_sha256)

lemma set_sha8_bytes: "c \<in> set (sha8_bytes bs) \<Longrightarrow> c \<in> hex_digits"
  unfolding sha8_bytes_def by (blast dest: in_set_takeD set_hexdigest)

lemma sha8_bytes_not_seed:
  "sha8_bytes bs \<noteq> ''mom_birthday''" "sha8_bytes bs \<noteq> ''gym_move''"
  "sha8_bytes bs \<noteq> ''ecosystem_bind''"
proof -
  have m: "CHR ''m'' \<notin> hex_digits" by (simp add: hex_digits_def)
  have g: "CHR ''g'' \<notin> hex_digits" by (simp add: hex_digits_def)
  have y: "CHR ''y'' \<notin> hex_digits" by (simp add: hex_digits_def)
  show "sha8_bytes bs \<noteq> ''mom_birthday''"
  proof
    assume "sha8_bytes bs = ''mom_birthday''"
    then have "CHR ''m'' \<in> set (sha8_bytes bs)" by simp
    with m set_sha8_bytes show False by blast
  qed
  show "sha8_bytes bs \<noteq> ''gym_move''"
  proof
    assume "sha8_bytes bs = ''gym_move''"
    then have "CHR ''g'' \<in> set (sha8_bytes bs)" by simp
    with g set_sha8_bytes show False by blast
  qed
  show "sha8_bytes bs \<noteq> ''ecosystem_bind''"
  proof
    assume "sha8_bytes bs = ''ecosystem_bind''"
    then have "CHR ''y'' \<in> set (sha8_bytes bs)" by simp
    with y set_sha8_bytes show False by blast
  qed
qed

lemma length_sha8: "length (sha8 s) = 8"
  by (simp add: sha8_def length_sha8_bytes)

lemma set_sha8: "c \<in> set (sha8 s) \<Longrightarrow> c \<in> hex_digits"
  unfolding sha8_def by (rule set_sha8_bytes)

lemma sha8_not_seed:
  "sha8 s \<noteq> ''mom_birthday''" "sha8 s \<noteq> ''gym_move''" "sha8 s \<noteq> ''ecosystem_bind''"
  unfolding sha8_def by (rule sha8_bytes_not_seed)+

section \<open>Texts as code points\<close>

text \<open>On the code points of a \<^typ>\<open>string\<close> the operations on texts agree with those on
  strings, whatever the Unicode table is, and the encoding never fails.\<close>

lemma of_char_less: "(of_char c :: nat) < 256"
  by (cases c) (simp add: of_char_def)

lemma length_cps: "length (cps s) = length s"
  by (simp add: cps_def)

lemma take_cps: "take n (cps s) = cps (take n s)"
  by (simp add: cps_def take_map)

lemma cps_eq_iff: "cps a = cps b \<longleftrightarrow> a = b"
  unfolding cps_def by (rule inj_map_eq_map) (rule inj_of_char)

lemma cps_Nil: "cps [] = []"
  by (simp add: cps_def)

lemma cps_Cons: "cps (c # s) = of_char c # cps s"
  by (simp add: cps_def)

lemma py_in_cps: "py_in (cps w) (cps s) = py_in w s"
proof (induction s)
  case Nil
  show ?case using cps_eq_iff [of w "[]"] by (simp add: cps_Nil)
next
  case (Cons c s)
  have "take (length (cps w)) (cps (c # s)) = cps w \<longleftrightarrow> take (length w) (c # s) = w"
    by (simp only: length_cps take_cps cps_eq_iff)
  with Cons show ?case by (simp add: cps_Cons)
qed

lemma any_in_cps: "any_in (map cps ws) (cps s) = any_in ws s"
  by (induction ws) (simp_all add: any_in_def py_in_cps)

lemma lower_cp_of_char: "lower_cp (of_char c) = of_char (lower_char c)"
proof -
  have "(of_char c :: nat) \<le> 222 \<Longrightarrow> (of_char c + 32 :: nat) mod 256 = of_char c + 32"
    by simp
  then show ?thesis
    by (auto simp: lower_cp_def lower_char_def Let_def)
qed

lemma cps_small: "list_all (\<lambda>c. c < 256) (cps s)"
  by (induction s) (simp_all add: cps_Nil cps_Cons of_char_less)

lemma lower_text_cps: "lower_text unicode_lower (cps s) = cps (py_lower s)"
  by (simp add: lower_text_def cps_small) (simp add: cps_def py_lower_def lower_cp_of_char)

lemma utf8_cp_of_char: "utf8_cp (of_char c) = Inr (utf8_char c)"
proof -
  have "(of_char c :: nat) < 256" by (rule of_char_less)
  then have "(of_char c :: nat) < 2048" by arith
  then show ?thesis by (simp add: utf8_cp_def utf8_char_def Let_def)
qed

lemma encode_text_cps: "encode_text (cps s) = Inr (encode s)"
  by (induction s) (simp_all add: cps_Nil cps_Cons utf8_cp_of_char encode_def)

lemma utf8_cp_surrogate: "0xD800 \<le> c \<and> c < 0xE000 \<Longrightarrow> utf8_cp c = Inl UnicodeEncodeError"
  by (simp add: utf8_cp_def)

lemma utf8_cp_other: "\<not> (0xD800 \<le> c \<and> c < 0xE000) \<Longrightarrow> \<exists>b. utf8_cp c = Inr b"
  by (simp add: utf8_cp_def)

lemma encode_text_surrogate: "has_surrogate s \<Longrightarrow> encode_text s = Inl UnicodeEncodeError"
proof (induction s)
  case Nil
  then show ?case by (simp add: has_surrogate_def)
next
  case (Cons c s)
  show ?case
  proof (cases "0xD800 \<le> c \<and> c < 0xE000")
    case True
    then have "utf8_cp c = Inl UnicodeEncodeError" by (rule utf8_cp_surrogate)
    then show ?thesis by simp
  next
    case False
    with Cons.prems have "has_surrogate s" by (simp add: has_surrogate_def)
    then have e: "encode_text s = Inl UnicodeEncodeError" by (rule Cons.IH)
    from utf8_cp_other [OF False] obtain b where "utf8_cp c = Inr b" by blast
    with e show ?thesis by simp
  qed
qed

lemma encode_text_no_surrogate: "\<not> has_surrogate s \<Longrightarrow> \<exists>bs. encode_text s = Inr bs"
proof (induction s)
  case Nil
  show ?case by simp
next
  case (Cons c s)
  from Cons.prems have c: "\<not> (0xD800 \<le> c \<and> c < 0xE000)" and s: "\<not> has_surrogate s"
    by (simp_all add: has_surrogate_def)
  from utf8_cp_other [OF c] obtain b where "utf8_cp c = Inr b" by blast
  moreover from Cons.IH [OF s] obtain bs where "encode_text s = Inr bs" by blast
  ultimately show ?case by simp
qed

lemma encode_text_Inl: "encode_text s = Inl e \<Longrightarrow> e = UnicodeEncodeError \<and> has_surrogate s"
  using encode_text_surrogate [of s] encode_text_no_surrogate [of s] by (cases "has_surrogate s") auto

lemma cps_no_surrogate: "\<not> has_surrogate (cps s)"
  using encode_text_cps [of s] encode_text_surrogate [of "cps s"] by auto

text \<open>\<^const>\<open>py_in\<close> is the substring test.\<close>

lemma py_in_iff: "py_in word s \<longleftrightarrow> (\<exists>p q. s = p @ word @ q)"
proof (induction s)
  case Nil
  show ?case by auto
next
  case (Cons c cs)
  show ?case
  proof
    assume "py_in word (c # cs)"
    then consider "take (length word) (c # cs) = word" | "py_in word cs" by auto
    then show "\<exists>p q. c # cs = p @ word @ q"
    proof cases
      case 1
      then have "c # cs = [] @ word @ drop (length word) (c # cs)"
        by (metis append_Nil append_take_drop_id)
      then show ?thesis by blast
    next
      case 2
      with Cons.IH obtain p q where "cs = p @ word @ q" by blast
      then have "c # cs = (c # p) @ word @ q" by simp
      then show ?thesis by blast
    qed
  next
    assume "\<exists>p q. c # cs = p @ word @ q"
    then obtain p q where e: "c # cs = p @ word @ q" by blast
    show "py_in word (c # cs)"
    proof (cases p)
      case Nil
      with e have "take (length word) (c # cs) = word" by simp
      then show ?thesis by simp
    next
      case (Cons a p')
      with e have "cs = p' @ word @ q" by simp
      with Cons.IH have "py_in word cs" by blast
      then show ?thesis by simp
    qed
  qed
qed

lemma dict_keys_update:
  "dict_keys (AList.update k v d) = (if k \<in> set (dict_keys d) then dict_keys d else dict_keys d @ [k])"
  by (induction d) (auto simp: dict_keys_def)

section \<open>The graph operations\<close>

lemma keys_add_node:
  "dict_keys (g_nodes (add_node n attr g)) =
     (if n \<in> set (dict_keys (g_nodes g)) then dict_keys (g_nodes g) else dict_keys (g_nodes g) @ [n])"
  by (simp add: add_node_def dict_keys_update)

lemma edges_add_node: "g_edges (add_node n attr g) = g_edges g"
  by (simp add: add_node_def)

lemma keys_ensure_node:
  "dict_keys (g_nodes (ensure_node n g)) =
     (if n \<in> set (dict_keys (g_nodes g)) then dict_keys (g_nodes g) else dict_keys (g_nodes g) @ [n])"
  by (simp add: ensure_node_def has_node_def dict_keys_def)

lemma edges_ensure_node: "g_edges (ensure_node n g) = g_edges g"
  by (simp add: ensure_node_def)

lemma keys_add_edge:
  "dict_keys (g_nodes (add_edge u v attr g)) = dict_keys (g_nodes (ensure_node v (ensure_node u g)))"
  by (simp add: add_edge_def Let_def)

lemma edge_keys_add_edge:
  "dict_keys (g_edges (add_edge u v attr g)) =
     (if (u, v) \<in> set (dict_keys (g_edges g)) then dict_keys (g_edges g)
      else dict_keys (g_edges g) @ [(u, v)])"
  by (simp add: add_edge_def Let_def dict_keys_update edges_ensure_node)

lemma node_set_add_edge:
  "set (dict_keys (g_nodes (add_edge u v attr g))) = insert u (insert v (set (dict_keys (g_nodes g))))"
  by (auto simp: keys_add_edge keys_ensure_node)

lemma targets_add_edge: "edge_targets (add_edge u v attr g) = insert v (edge_targets g)"
  unfolding edge_targets_def by (force simp: edge_keys_add_edge)

section \<open>The agent\<close>

lemma init_agent_graph: "graph init_agent = \<lparr>g_nodes = base_facts, g_edges = []\<rparr>"
  by (simp add: init_agent_def initialize_base_facts_def base_facts_def add_node_def dict_update_def)

lemma init_agent_facts: "facts_db init_agent = base_facts"
  by (simp add: init_agent_def initialize_base_facts_def base_facts_def)

lemma add_command_node_raises:
  "encode_text command = Inl e \<Longrightarrow> add_command_node now command g = Inl e"
  by (simp add: add_command_node_def)

lemma add_command_node_returns:
  "encode_text command = Inr bs \<Longrightarrow>
   add_command_node now command g =
     Inr (sha8_bytes bs,
          add_node (sha8_bytes bs)
            [(''content'', PStr command),
             (''timestamp'', PStr (cps now)),
             (''type'', PStr (cps ''command'')),
             (''attribution'', PStr (cps ''@AxiomHive @devdollzai''))] g)"
  by (simp add: add_command_node_def Let_def)

lemma add_command_node_Inr:
  assumes "add_command_node now command g = Inr (h, g1)"
  shows "\<exists>bs attr. encode_text command = Inr bs \<and> h = sha8_bytes bs \<and> g1 = add_node h attr g"
proof (cases "encode_text command")
  case (Inl e)
  with assms show ?thesis by (simp add: add_command_node_def)
next
  case (Inr bs)
  have "add_command_node now command g =
     Inr (sha8_bytes bs,
          add_node (sha8_bytes bs)
            [(''content'', PStr command),
             (''timestamp'', PStr (cps now)),
             (''type'', PStr (cps ''command'')),
             (''attribution'', PStr (cps ''@AxiomHive @devdollzai''))] g)"
    by (rule add_command_node_returns [OF Inr])
  with assms Inr show ?thesis by auto
qed

lemma build_raises:
  "encode_text command = Inl e \<Longrightarrow> build_4d_graph W now command a = (Inl e, a)"
  by (simp add: build_4d_graph_def add_command_node_raises)

lemma build_graph_eq:
  "add_command_node now command (graph a) = Inr (h, g1) \<Longrightarrow>
   graph (snd (build_4d_graph W now command a)) = build_causal_relationships W h command g1"
  by (simp add: build_4d_graph_def Let_def)

lemma build_facts_eq: "facts_db (snd (build_4d_graph W now command a)) = facts_db a"
  by (simp add: build_4d_graph_def Let_def split: sum.splits prod.splits)

lemma result_of_build:
  "add_command_node now command (graph a) = Inr (h, g1) \<Longrightarrow>
   fst (build_4d_graph W now command a) =
     Inr \<lparr>coherence = calculate_coherence (graph (snd (build_4d_graph W now command a))),
          nodes = length (g_nodes (graph (snd (build_4d_graph W now command a)))),
          edges = length (g_edges (graph (snd (build_4d_graph W now command a)))),
          graph_hash =
            sha8 (str_list (dict_keys (g_nodes (graph (snd (build_4d_graph W now command a))))))\<rparr>"
  by (simp add: build_4d_graph_def Let_def)

text \<open>A call of \<^const>\<open>build_4d_graph\<close> either raises and changes nothing, or adds the
  command node and then the edges.\<close>

lemma build_cases:
  obtains (raises) "has_surrogate command"
      and "build_4d_graph W now command a = (Inl UnicodeEncodeError, a)"
  | (returns) bs attr where "encode_text command = Inr bs"
      and "graph (snd (build_4d_graph W now command a)) =
             build_causal_relationships W (sha8_bytes bs) command
               (add_node (sha8_bytes bs) attr (graph a))"
proof (cases "encode_text command")
  case (Inl e)
  from encode_text_Inl [OF Inl] have e: "e = UnicodeEncodeError" and s: "has_surrogate command"
    by simp_all
  have "build_4d_graph W now command a = (Inl e, a)"
    by (rule build_raises [OF Inl])
  with e have "build_4d_graph W now command a = (Inl UnicodeEncodeError, a)" by simp
  with s show ?thesis by (rule raises)
next
  case (Inr bs)
  have "graph (snd (build_4d_graph W now command a)) =
      build_causal_relationships W (sha8_bytes bs) command
        (add_node (sha8_bytes bs)
          [(''content'', PStr command),
           (''timestamp'', PStr (cps now)),
           (''type'', PStr (cps ''command'')),
           (''attribution'', PStr (cps ''@AxiomHive @devdollzai''))] (graph a))"
    by (rule build_graph_eq) (rule add_command_node_returns [OF Inr])
  with Inr show ?thesis by (rule returns)
qed

lemma targets_build_rel:
  "edge_targets (build_causal_relationships W h c g)
     \<subseteq> edge_targets g \<union> {''mom_birthday'', ''gym_move'', ''ecosystem_bind''}"
  by (auto simp: build_causal_relationships_def Let_def targets_add_edge)

lemma build_edges_targets:
  "edge_targets (graph (snd (build_4d_graph W now command a)))
     \<subseteq> edge_targets (graph a) \<union> {''mom_birthday'', ''gym_move'', ''ecosystem_bind''}"
proof (cases rule: build_cases [where command = command and W = W and now = now and a = a])
  case raises
  then show ?thesis by auto
next
  case (returns bs attr)
  have "edge_targets (add_node (sha8_bytes bs) attr (graph a)) = edge_targets (graph a)"
    by (simp add: edge_targets_def edges_add_node)
  with targets_build_rel [where W = W and h = "sha8_bytes bs" and c = command
      and g = "add_node (sha8_bytes bs) attr (graph a)"]
  show ?thesis by (simp add: returns(2))
qed

lemma integrate_loop_edges:
  "g_edges (graph (snd (integrate_loop clock i items processed a))) = g_edges (graph a)"
  by (induction clock i items processed a rule: integrate_loop.induct)
     (auto simp: Let_def edges_add_node split: option.splits)

lemma integrate_facts_edges:
  "g_edges (graph (snd (integrate_facts clock facts_data a))) = g_edges (graph a)"
  by (cases facts_data) (simp_all add: integrate_facts_def integrate_loop_edges)

lemma lower_plan_sf_move: "py_lower ''plan SF move'' = ''plan sf move''"
  by code_simp

lemma add_command_node_cps:
  "add_command_node now (cps s) g =
     Inr (sha8 s,
          add_node (sha8 s)
            [(''content'', PStr (cps s)),
             (''timestamp'', PStr (cps now)),
             (''type'', PStr (cps ''command'')),
             (''attribution'', PStr (cps ''@AxiomHive @devdollzai''))] g)"
  by (simp add: add_command_node_returns [OF encode_text_cps] sha8_def)

lemma graph_after_plan_sf_move:
  "graph (snd (build_4d_graph W now (cps ''plan SF move'') init_agent)) =
     \<lparr>g_nodes = base_facts @
        [(sha8 ''plan SF move'',
          [(''content'', PStr (cps ''plan SF move'')),
           (''timestamp'', PStr (cps now)),
           (''type'', PStr (cps ''command'')),
           (''attribution'', PStr (cps ''@AxiomHive @devdollzai''))])],
      g_edges = [((sha8 ''plan SF move'', ''gym_move''), [(''relation'', PStr (cps ''action''))])]\<rparr>"
  by (simp add: build_graph_eq [OF add_command_node_cps] build_causal_relationships_def
      init_agent_graph lower_text_cps lower_plan_sf_move any_in_def py_in_cps
      add_node_def add_edge_def ensure_node_def
      has_node_def dict_keys_def dict_update_def base_facts_def
      sha8_not_seed sha8_not_seed [symmetric] Let_def)

lemma node_set_build_rel:
  "set (dict_keys (g_nodes (build_causal_relationships W h c g))) =
     set (dict_keys (g_nodes g))
     \<union> (if py_in (cps ''birthday'') (lower_text W c) \<or> py_in (cps ''date'') (lower_text W c)
        then {h, ''mom_birthday''} else {})
     \<union> (if any_in [cps ''move'', cps ''plan'', cps ''gym'', cps ''sf''] (lower_text W c)
        then {h, ''gym_move''} else {})
     \<union> (if any_in [cps ''ecosystem'', cps ''bind'', cps ''nexus'', cps ''4d''] (lower_text W c)
        then {h, ''ecosystem_bind''} else {})"
  unfolding build_causal_relationships_def Let_def
  by (simp add: node_set_add_edge)

lemma keys_add_edge_known:
  "u \<in> set (dict_keys (g_nodes g)) \<Longrightarrow> v \<in> set (dict_keys (g_nodes g)) \<Longrightarrow>
   dict_keys (g_nodes (add_edge u v attr g)) = dict_keys (g_nodes g)"
  by (simp add: keys_add_edge keys_ensure_node)

lemma keys_build_rel_known:
  assumes "h \<in> set (dict_keys (g_nodes g))"
    and "py_in (cps ''birthday'') (lower_text W c) \<or> py_in (cps ''date'') (lower_text W c)
           \<Longrightarrow> ''mom_birthday'' \<in> set (dict_keys (g_nodes g))"
    and "any_in [cps ''move'', cps ''plan'', cps ''gym'', cps ''sf''] (lower_text W c)
           \<Longrightarrow> ''gym_move'' \<in> set (dict_keys (g_nodes g))"
    and "any_in [cps ''ecosystem'', cps ''bind'', cps ''nexus'', cps ''4d''] (lower_text W c)
           \<Longrightarrow> ''ecosystem_bind'' \<in> set (dict_keys (g_nodes g))"
  shows "dict_keys (g_nodes (build_causal_relationships W h c g)) = dict_keys (g_nodes g)"
proof -
  let ?g1 = "if py_in (cps ''birthday'') (lower_text W c) \<or> py_in (cps ''date'') (lower_text W c)
             then add_edge h ''mom_birthday'' [(''relation'', PStr (cps ''temporal''))] g else g"
  let ?g2 = "if any_in [cps ''move'', cps ''plan'', cps ''gym'', cps ''sf''] (lower_text W c)
             then add_edge h ''gym_move'' [(''relation'', PStr (cps ''action''))] ?g1 else ?g1"
  let ?g3 = "if any_in [cps ''ecosystem'', cps ''bind'', cps ''nexus'', cps ''4d''] (lower_text W c)
             then add_edge h ''ecosystem_bind'' [(''relation'', PStr (cps ''system''))] ?g2 else ?g2"
  have k1: "dict_keys (g_nodes ?g1) = dict_keys (g_nodes g)"
    using assms(1,2) by (simp add: keys_add_edge_known)
  have k2: "dict_keys (g_nodes ?g2) = dict_keys (g_nodes g)"
    using assms(1,3) k1 by (simp add: keys_add_edge_known)
  have k3: "dict_keys (g_nodes ?g3) = dict_keys (g_nodes g)"
    using assms(1,4) k2 by (simp add: keys_add_edge_known)
  have "build_causal_relationships W h c g = ?g3"
    by (simp add: build_causal_relationships_def Let_def)
  with k3 show ?thesis by simp
qed

lemma keys_build_rel_again:
  "dict_keys (g_nodes (build_causal_relationships W h c
      (add_node h attr' (build_causal_relationships W h c (add_node h attr g)))))
   = dict_keys (g_nodes (build_causal_relationships W h c (add_node h attr g)))"
proof -
  let ?g2 = "build_causal_relationships W h c (add_node h attr g)"
  have h0: "h \<in> set (dict_keys (g_nodes (add_node h attr g)))"
    by (simp add: keys_add_node)
  have h2: "h \<in> set (dict_keys (g_nodes ?g2))"
    using h0 by (simp add: node_set_build_rel)
  have same: "dict_keys (g_nodes (add_node h attr' ?g2)) = dict_keys (g_nodes ?g2)"
    using h2 by (simp add: keys_add_node)
  have "dict_keys (g_nodes (build_causal_relationships W h c (add_node h attr' ?g2)))
          = dict_keys (g_nodes (add_node h attr' ?g2))"
  proof (rule keys_build_rel_known)
    show "h \<in> set (dict_keys (g_nodes (add_node h attr' ?g2)))"
      by (simp add: keys_add_node)
  qed (simp_all only: same node_set_build_rel if_True Un_iff insert_iff simp_thms)
  with same show ?thesis by simp
qed

lemma node_set_add_node:
  "set (dict_keys (g_nodes (add_node n attr g))) = insert n (set (dict_keys (g_nodes g)))"
  by (simp add: add_node_def set_dict_keys_update)

lemma node_ids_build:
  "node_ids a \<subseteq> node_ids (snd (build_4d_graph W now command a))"
  "encode_text command = Inr bs \<Longrightarrow> sha8_bytes bs \<in> node_ids (snd (build_4d_graph W now command a))"
proof -
  show "node_ids a \<subseteq> node_ids (snd (build_4d_graph W now command a))"
  proof (cases rule: build_cases [where command = command and W = W and now = now and a = a])
    case raises
    then show ?thesis by simp
  next
    case (returns bs attr)
    then show ?thesis
      unfolding node_ids_def by (simp only: node_set_build_rel node_set_add_node) blast
  qed
  show "sha8_bytes bs \<in> node_ids (snd (build_4d_graph W now command a))"
    if "encode_text command = Inr bs"
    unfolding node_ids_def
    by (simp only: build_graph_eq [OF add_command_node_returns [OF that]]
        node_set_build_rel node_set_add_node) blast
qed

lemma node_ids_build_upper:
  "node_ids (snd (build_4d_graph W now command a))
     \<subseteq> node_ids a \<union> range sha8_bytes \<union> {''mom_birthday'', ''gym_move'', ''ecosystem_bind''}"
proof (cases rule: build_cases [where command = command and W = W and now = now and a = a])
  case raises
  then show ?thesis by auto
next
  case (returns bs attr)
  have r: "sha8_bytes bs \<in> range sha8_bytes" by (rule rangeI)
  show ?thesis
    unfolding node_ids_def
    apply (simp only: returns(2) node_set_build_rel node_set_add_node)
    using r by (auto split: if_splits)
qed

lemma fact_keys_build: "fact_keys (snd (build_4d_graph W now command a)) = fact_keys a"
  by (simp add: fact_keys_def build_facts_eq)

lemma init_fact_keys: "fact_keys init_agent = {''mom_birthday'', ''gym_move'', ''ecosystem_bind''}"
  by (simp add: fact_keys_def init_agent_facts base_facts_def dict_keys_def)

lemma init_node_ids: "node_ids init_agent = {''mom_birthday'', ''gym_move'', ''ecosystem_bind''}"
  by (simp add: node_ids_def init_agent_graph base_facts_def dict_keys_def)

text \<open>What a run of the loop of \<^const>\<open>integrate_facts\<close> adds: when it returns, the ids
  of the payload to the registry and to the graph; in any case no node that it did not
  also add to the registry.\<close>

lemma integrate_loop_adds:
  "integrate_loop clock i items processed a = (Inr ids, a') \<Longrightarrow>
   set (dict_keys (facts_db a')) = set (dict_keys (facts_db a)) \<union> set (dict_keys items) \<and>
   set (dict_keys (g_nodes (graph a'))) = set (dict_keys (g_nodes (graph a))) \<union> set (dict_keys items)"
proof (induction clock i items processed a rule: integrate_loop.induct)
  case (1 clock i processed_facts a)
  then show ?case by (simp add: dict_keys_def)
next
  case (2 clock i fact_id fact_content rest processed_facts a)
  show ?case
  proof (cases "as_mapping fact_content")
    case None
    with 2(2) show ?thesis by simp
  next
    case (Some d)
    let ?entry = "fact_entry (clock i) d"
    let ?a1 = "a\<lparr>facts_db := AList.update fact_id ?entry (facts_db a)\<rparr>"
    let ?a2 = "?a1\<lparr>graph := add_node fact_id ?entry (graph ?a1)\<rparr>"
    from 2(2) Some have nc: "\<not> kwargs_clash ?entry"
      by (auto simp: Let_def split: if_splits)
    with 2(2) Some have run:
      "integrate_loop clock (Suc i) rest (processed_facts @ [fact_id]) ?a2 = (Inr ids, a')"
      by (simp add: Let_def)
    have f: "set (dict_keys (facts_db ?a2)) = insert fact_id (set (dict_keys (facts_db a)))"
      by (simp add: set_dict_keys_update)
    have n: "set (dict_keys (g_nodes (graph ?a2))) = insert fact_id (set (dict_keys (g_nodes (graph a))))"
      by (simp add: add_node_def set_dict_keys_update)
    have k: "set (dict_keys ((fact_id, fact_content) # rest)) = insert fact_id (set (dict_keys rest))"
      by (simp add: dict_keys_def)
    from 2(1) [OF Some refl refl nc run] show ?thesis
      unfolding f n k by blast
  qed
qed

lemma integrate_facts_adds:
  assumes "integrate_facts clock facts_data a = (Inr ids, a')"
  shows "\<exists>X. fact_keys a' = fact_keys a \<union> X \<and> node_ids a' = node_ids a \<union> X"
proof (cases facts_data)
  case (PDict items)
  with assms have "integrate_loop clock 0 items [] a = (Inr ids, a')"
    by (simp add: integrate_facts_def)
  from integrate_loop_adds [OF this]
  have "fact_keys a' = fact_keys a \<union> set (dict_keys items) \<and>
        node_ids a' = node_ids a \<union> set (dict_keys items)"
    by (simp add: fact_keys_def node_ids_def)
  then show ?thesis by blast
qed (use assms in \<open>simp_all add: integrate_facts_def\<close>)

lemma integrate_loop_grows:
  "\<exists>X Y. X \<subseteq> Y \<and>
     set (dict_keys (facts_db (snd (integrate_loop clock i items processed a))))
       = set (dict_keys (facts_db a)) \<union> Y \<and>
     set (dict_keys (g_nodes (graph (snd (integrate_loop clock i items processed a)))))
       = set (dict_keys (g_nodes (graph a))) \<union> X"
proof (induction clock i items processed a rule: integrate_loop.induct)
  case (1 clock i processed_facts a)
  have "{} \<subseteq> ({} :: string set)" by simp
  then show ?case by (simp only: integrate_loop.simps snd_conv) blast
next
  case (2 clock i fact_id fact_content rest processed_facts a)
  show ?case
  proof (cases "as_mapping fact_content")
    case None
    then have "snd (integrate_loop clock i ((fact_id, fact_content) # rest) processed_facts a) = a"
      by simp
    then show ?thesis by (simp only:) blast
  next
    case (Some d)
    let ?entry = "fact_entry (clock i) d"
    let ?a1 = "a\<lparr>facts_db := AList.update fact_id ?entry (facts_db a)\<rparr>"
    let ?a2 = "?a1\<lparr>graph := add_node fact_id ?entry (graph ?a1)\<rparr>"
    show ?thesis
    proof (cases "kwargs_clash ?entry")
      case True
      with Some have e: "snd (integrate_loop clock i ((fact_id, fact_content) # rest) processed_facts a) = ?a1"
        by (simp add: Let_def)
      have f: "set (dict_keys (facts_db ?a1)) = set (dict_keys (facts_db a)) \<union> {fact_id}"
        by (simp add: set_dict_keys_update)
      have n: "set (dict_keys (g_nodes (graph ?a1))) = set (dict_keys (g_nodes (graph a))) \<union> {}"
        by simp
      have "{} \<subseteq> {fact_id}" by simp
      with f n show ?thesis unfolding e by blast
    next
      case False
      with Some have e: "snd (integrate_loop clock i ((fact_id, fact_content) # rest) processed_facts a)
          = snd (integrate_loop clock (Suc i) rest (processed_facts @ [fact_id]) ?a2)"
        by (simp add: Let_def)
      from 2 [OF Some refl refl False] obtain X Y where xy: "X \<subseteq> Y"
        and f: "set (dict_keys (facts_db (snd (integrate_loop clock (Suc i) rest
                   (processed_facts @ [fact_id]) ?a2)))) = set (dict_keys (facts_db ?a2)) \<union> Y"
        and n: "set (dict_keys (g_nodes (graph (snd (integrate_loop clock (Suc i) rest
                   (processed_facts @ [fact_id]) ?a2))))) = set (dict_keys (g_nodes (graph ?a2))) \<union> X"
        by blast
      have f2: "set (dict_keys (facts_db ?a2)) = set (dict_keys (facts_db a)) \<union> {fact_id}"
        by (simp add: set_dict_keys_update)
      have n2: "set (dict_keys (g_nodes (graph ?a2))) = set (dict_keys (g_nodes (graph a))) \<union> {fact_id}"
        by (simp add: add_node_def set_dict_keys_update)
      have "insert fact_id X \<subseteq> insert fact_id Y" using xy by blast
      moreover have "set (dict_keys (facts_db ?a2)) \<union> Y = set (dict_keys (facts_db a)) \<union> insert fact_id Y"
        unfolding f2 by blast
      moreover have "set (dict_keys (g_nodes (graph ?a2))) \<union> X
          = set (dict_keys (g_nodes (graph a))) \<union> insert fact_id X"
        unfolding n2 by blast
      ultimately show ?thesis unfolding e f n by blast
    qed
  qed
qed

lemma integrate_facts_grows:
  "\<exists>X Y. X \<subseteq> Y \<and>
     fact_keys (snd (integrate_facts clock facts_data a)) = fact_keys a \<union> Y \<and>
     node_ids (snd (integrate_facts clock facts_data a)) = node_ids a \<union> X"
proof (cases "is_mapping facts_data")
  case True
  then obtain items where "facts_data = PDict items"
    by (cases facts_data) (simp_all add: is_mapping_def)
  then have "snd (integrate_facts clock facts_data a) = snd (integrate_loop clock 0 items [] a)"
    by (simp add: integrate_facts_def)
  with integrate_loop_grows [of clock 0 items "[]" a] show ?thesis
    by (simp only: fact_keys_def node_ids_def)
next
  case False
  then have "snd (integrate_facts clock facts_data a) = a"
    by (cases facts_data) (simp_all add: is_mapping_def integrate_facts_def)
  moreover have "{} \<subseteq> ({} :: string set)" by simp
  ultimately show ?thesis by (simp only:) blast
qed

lemma returned_reachable: "returned W a \<Longrightarrow> reachable W a"
proof (induction rule: returned.induct)
  case ret_init
  show ?case by (rule reach_init)
next
  case (ret_build a now command)
  then show ?case by (blast intro: reach_build)
next
  case (ret_integrate a clock facts_data ids a')
  from reach_integrate [OF ret_integrate.IH, where clock = clock and facts_data = facts_data]
    ret_integrate.hyps(2)
  show ?case by simp
qed

lemma reachable_seeds:
  "reachable W a \<Longrightarrow> fact_keys init_agent \<subseteq> fact_keys a"
proof (induction rule: reachable.induct)
  case reach_init
  show ?case by simp
next
  case (reach_build a now command)
  then show ?case by (simp only: fact_keys_build)
next
  case (reach_integrate a clock facts_data)
  from integrate_facts_grows [of clock facts_data a]
  obtain Y where "fact_keys (snd (integrate_facts clock facts_data a)) = fact_keys a \<union> Y" by blast
  with reach_integrate.IH show ?case by blast
qed

lemma returned_facts_nodes:
  "returned W a \<Longrightarrow> fact_keys a \<subseteq> node_ids a"
proof (induction rule: returned.induct)
  case ret_init
  show ?case by (simp only: init_fact_keys init_node_ids subset_refl)
next
  case (ret_build a now command)
  from ret_build.IH node_ids_build(1) [where a = a and W = W and now = now and command = command]
  show ?case
    unfolding fact_keys_build by (rule subset_trans)
next
  case (ret_integrate a clock facts_data ids a')
  from integrate_facts_adds [OF ret_integrate.hyps(2)]
  obtain X where "fact_keys a' = fact_keys a \<union> X" and "node_ids a' = node_ids a \<union> X" by blast
  with ret_integrate.IH show ?case by blast
qed

lemma reachable_nodes_facts:
  "reachable W a \<Longrightarrow> node_ids a \<subseteq> fact_keys a \<union> range sha8_bytes"
proof (induction rule: reachable.induct)
  case reach_init
  show ?case by (simp only: init_fact_keys init_node_ids Un_upper1)
next
  case (reach_build a now command)
  have seeds: "fact_keys init_agent \<subseteq> fact_keys a"
    by (rule reachable_seeds) (rule reach_build.hyps)
  have up: "node_ids (snd (build_4d_graph W now command a))
     \<subseteq> node_ids a \<union> range sha8_bytes \<union> fact_keys init_agent"
    using node_ids_build_upper [where W = W and now = now and command = command and a = a]
    by (simp only: init_fact_keys)
  with seeds reach_build.IH show ?case
    unfolding fact_keys_build by blast
next
  case (reach_integrate a clock facts_data)
  from integrate_facts_grows [of clock facts_data a]
  obtain X Y where "X \<subseteq> Y"
    and "fact_keys (snd (integrate_facts clock facts_data a)) = fact_keys a \<union> Y"
    and "node_ids (snd (integrate_facts clock facts_data a)) = node_ids a \<union> X" by blast
  with reach_integrate.IH show ?case by blast
qed

lemma hello_not_fact:
  "sha8 ''hello'' \<notin> fact_keys (snd (build_4d_graph W now (cps ''hello'') init_agent))"
  by (simp add: fact_keys_def build_facts_eq init_agent_facts base_facts_def dict_keys_def sha8_not_seed)

lemma hello_is_node:
  "sha8 ''hello'' \<in> node_ids (snd (build_4d_graph W now (cps ''hello'') init_agent))"
  using node_ids_build(2) [OF encode_text_cps, where W = W and now = now and a = init_agent
      and s1 = "''hello''"]
  by (simp add: sha8_def)

text \<open>On the code points of a \<^typ>\<open>string\<close> the Unicode table is not consulted.\<close>

lemma build_on_cps:
  "build_4d_graph W now (cps s) a = build_4d_graph W' now (cps s) a"
  by (simp add: build_4d_graph_def add_command_node_cps build_causal_relationships_def
      lower_text_cps)

text \<open>A call of \<^const>\<open>integrate_facts\<close> that raises at \<^verbatim>\<open>add_node\<close> has written the
  registry entry already: the fact \<^verbatim>\<open>y\<close> below is in the registry and not in the graph.\<close>

lemma raising_integrate_leaves_fact_without_node:
  "fst (integrate_facts (\<lambda>i. ''2025-09-21T08:00:00'') (PDict [(''y'', PDict [(''self'', PInt 1)])])
      init_agent) = Inl TypeError \<and>
   ''y'' \<in> fact_keys (snd (integrate_facts (\<lambda>i. ''2025-09-21T08:00:00'')
      (PDict [(''y'', PDict [(''self'', PInt 1)])]) init_agent)) \<and>
   ''y'' \<notin> node_ids (snd (integrate_facts (\<lambda>i. ''2025-09-21T08:00:00'')
      (PDict [(''y'', PDict [(''self'', PInt 1)])]) init_agent))"
  by (simp add: integrate_facts_def as_mapping_def fact_entry_def dict_update_def kwargs_clash_def
      dict_keys_def fact_keys_def node_ids_def init_agent_graph init_agent_facts base_facts_def)

section \<open>The causal chain\<close>

lemma scan_adj_extends:
  "\<exists>more. fst (scan_adj pv ws paths nextlevel) = paths @ more"
proof (induction pv ws paths nextlevel rule: scan_adj.induct)
  case (1 pv paths nextlevel)
  show ?case by simp
next
  case (2 pv w ws paths nextlevel)
  show ?case
  proof (cases "w \<in> set (dict_keys paths)")
    case True
    with 2(1) show ?thesis by simp
  next
    case False
    with 2(2) obtain more where
      "fst (scan_adj pv ws (paths @ [(w, pv @ [w])]) (nextlevel @ [(w, pv @ [w])]))
         = (paths @ [(w, pv @ [w])]) @ more" by blast
    with False show ?thesis by simp
  qed
qed

lemma scan_level_extends:
  "\<exists>more. fst (scan_level g thislevel paths nextlevel) = paths @ more"
proof (induction g thislevel paths nextlevel rule: scan_level.induct)
  case (1 g paths nextlevel)
  show ?case by simp
next
  case (2 g v pv thislevel paths nextlevel)
  obtain paths' nextlevel' where s: "scan_adj pv (successors g v) paths nextlevel = (paths', nextlevel')"
    by (cases "scan_adj pv (successors g v) paths nextlevel")
  from scan_adj_extends [of pv "successors g v" paths nextlevel] s
  obtain m1 where m1: "paths' = paths @ m1" by auto
  from 2 [OF s [symmetric]] obtain m2 where
    "fst (scan_level g thislevel paths' nextlevel') = paths' @ m2" by blast
  with s m1 show ?case by simp
qed

lemma bfs_levels_extends:
  "\<exists>more. bfs_levels g cutoff level nextlevel paths = paths @ more"
proof (induction g cutoff level nextlevel paths rule: bfs_levels.induct)
  case (1 g cutoff level nextlevel paths)
  show ?case
  proof (cases "nextlevel \<noteq> [] \<and> cutoff > level")
    case False
    then show ?thesis by (subst bfs_levels.simps) auto
  next
    case True
    obtain paths' nextlevel' where s: "scan_level g nextlevel paths [] = (paths', nextlevel')"
      by (cases "scan_level g nextlevel paths []")
    from scan_level_extends [of g nextlevel paths "[]"] s
    obtain m1 where m1: "paths' = paths @ m1" by auto
    from 1 [OF True s [symmetric]] obtain m2 where
      "bfs_levels g cutoff (level + 1) nextlevel' paths' = paths' @ m2" by blast
    with True s m1 show ?thesis by (subst bfs_levels.simps) simp
  qed
qed

lemma shortest_path_starts_at_source:
  "\<exists>more. dict_keys (single_source_shortest_path g source cutoff) = source # more"
proof -
  from bfs_levels_extends [of g cutoff 0 "[(source, [source])]" "[(source, [source])]"]
  obtain more where "single_source_shortest_path g source cutoff = [(source, [source])] @ more"
    unfolding single_source_shortest_path_def by blast
  then show ?thesis by (simp add: dict_keys_def)
qed

lemma causal_chain_absent:
  "\<not> has_node (graph a) start_node \<Longrightarrow> get_causal_chain start_node max_depth a = Inr []"
  by (simp add: get_causal_chain_def)

section \<open>The orchestrator\<close>

lemma integrate_not_mapping:
  "\<not> is_mapping facts_data \<Longrightarrow> integrate_facts clock facts_data a = (Inl AttributeError, a)"
  by (cases facts_data) (simp_all add: is_mapping_def integrate_facts_def)

lemma decompose_not_str: "\<not> is_str command \<Longrightarrow> decompose_4d command = Inl AttributeError"
  by (cases command) (simp_all add: is_str_def decompose_4d_def)

lemma in_keys_map_of: "k \<in> set (dict_keys d) \<longleftrightarrow> map_of d k \<noteq> None"
  by (simp add: dict_keys_def map_of_eq_None_iff)

lemma process_error_state:
  assumes "decompose_4d command = Inl e"
  shows "fst (process command cid now now' s) = Inl e"
    and "map_of (contexts (snd (process command cid now now' s)))
           = (map_of (contexts s))(cid \<mapsto> touched command now now' (map_of (contexts s) cid))"
  using assms
  by (auto simp: process_def Let_def touched_def map_of_map_entry update_conv' in_keys_map_of
      fun_eq_iff split: option.splits)

lemma any_in_append: "any_in (xs @ ys) c = (any_in xs c \<or> any_in ys c)"
  by (simp add: any_in_def)

lemma classify_generic:
  "\<not> any_in classifier_keywords c \<Longrightarrow> classify_command c = ''generic''"
  by (simp add: classifier_keywords_def any_in_def classify_command_def)

lemma py_in_self: "py_in w w"
  by (cases w) simp_all

lemma py_in_append: "py_in w (p @ w)"
  by (induction p) (simp_all add: py_in_self)

lemma length_add_temporal: "length base \<le> length (add_temporal_dimension c base)"
  by (simp add: add_temporal_dimension_def Let_def)

lemma length_add_causal: "length base \<le> length (add_causal_dimension c base)"
  by (simp add: add_causal_dimension_def Let_def)

lemma length_add_spatial: "length base \<le> length (add_spatial_dimension c base)"
  by (simp add: add_spatial_dimension_def Let_def)

lemma length_dimensions:
  "length base \<le> length (add_spatial_dimension c (add_causal_dimension c (add_temporal_dimension c base)))"
  using length_add_temporal [of base c]
    length_add_causal [of "add_temporal_dimension c base" c]
    length_add_spatial [of "add_causal_dimension c (add_temporal_dimension c base)" c]
  by linarith

lemma map_of_rules:
  "map_of load_decomposition_rules (classify_command c) = None \<and> classify_command c = ''generic''
   \<or> (\<exists>base. map_of load_decomposition_rules (classify_command c) = Some base \<and> length base = 5)"
  by (simp add: classify_command_def load_decomposition_rules_def)

lemma decompose_str: "\<exists>r. decompose_4d (PStr c) = Inr r \<and> 5 \<le> length r"
proof -
  from map_of_rules [of "py_lower c"] show ?thesis
  proof
    assume "map_of load_decomposition_rules (classify_command (py_lower c)) = None \<and>
      classify_command (py_lower c) = ''generic''"
    then show ?thesis
      by (simp add: decompose_4d_def Let_def generic_decomposition_def load_decomposition_rules_def)
  next
    assume "\<exists>base. map_of load_decomposition_rules (classify_command (py_lower c)) = Some base \<and>
      length base = 5"
    then obtain base where b: "map_of load_decomposition_rules (classify_command (py_lower c)) = Some base"
      and l: "length base = 5" by blast
    from length_dimensions [of base "py_lower c"] l b show ?thesis
      by (simp add: decompose_4d_def Let_def)
  qed
qed

lemma decompose_generic:
  "classify_command (py_lower c) = ''generic'' \<Longrightarrow> decompose_4d (PStr c) = Inr (generic_decomposition c)"
  by (simp add: decompose_4d_def Let_def load_decomposition_rules_def)

lemma process_fst: "fst (process command cid now now' s) = decompose_4d command"
  by (simp add: process_def Let_def split: sum.splits)

lemma no_keyword_empty: "\<not> any_in classifier_keywords (py_lower '''')"
  by (simp add: py_lower_def classifier_keywords_def any_in_def)

lemma no_keyword_hello: "\<not> any_in classifier_keywords (py_lower ''hello'')"
  by code_simp

lemma process_creates_context:
  "cid \<in> set (dict_keys (contexts (snd (process command cid now now' s))))"
  by (auto simp: process_def Let_def dict_keys_def dom_map_entry dom_update split: sum.splits)

lemma process_ok_state:
  assumes "decompose_4d command = Inr r"
  shows "map_of (contexts (snd (process command cid now now' s))) cid
           = Some ((touched command now now' (map_of (contexts s) cid))
                \<lparr>coherence_score :=
                   py_round (min (of_int (commands_processed (touched command now now' (map_of (contexts s) cid))
                                          * int (length r)) / 10) 1) 3\<rparr>)"
  using assms
  by (auto simp: process_def Let_def touched_def map_of_map_entry update_conv' in_keys_map_of
      calculate_context_coherence_def split: option.splits)

lemma py_round_one: "py_round 1 3 = 1"
  by (simp add: py_round_def)

lemma decompose_hello:
  "decompose_4d (PStr ''hello'') = Inr (generic_decomposition ''hello'')"
  by (rule decompose_generic) (simp add: classify_generic no_keyword_hello)

lemma process_hello_twice:
  "map_of (contexts (snd (process (PStr ''hello'') ''ctxA'' t2 t3
       (snd (process (PStr ''hello'') ''ctxA'' t0 t1 init_orchestrator))))) ''ctxA''
     = Some \<lparr>created = t0, commands_processed = 2, coherence_score = 1,
             last_command = Some (PStr ''hello''), last_processed = Some t3\<rparr>"
  by (simp add: process_ok_state [OF decompose_hello] touched_def init_orchestrator_def
      generic_decomposition_def py_round_def)

section \<open>The claims\<close>

text \<open>
  C1. The claim that the node ids of the graph are exactly the keys of the fact registry
  fails after \<^verbatim>\<open>build_4d_graph\<close>: the command node is added to the graph and not to
  \<^verbatim>\<open>facts_db\<close>. After \<^verbatim>\<open>build_4d_graph("hello")\<close> on the constructed agent the node
  \<^verbatim>\<open>sha256("hello")[:8]\<close> is in the graph and is no key of the registry. (The command is
  ASCII, so the Unicode table is not consulted; \<open>id\<close> stands in for it.)
\<close>

theorem node_ids_not_fact_keys:
  "reachable id (snd (build_4d_graph id ''2025-09-21T08:00:00'' (cps ''hello'') init_agent)) \<and>
   node_ids (snd (build_4d_graph id ''2025-09-21T08:00:00'' (cps ''hello'') init_agent))
     \<noteq> fact_keys (snd (build_4d_graph id ''2025-09-21T08:00:00'' (cps ''hello'') init_agent))"
proof -
  have r: "reachable id (snd (build_4d_graph id ''2025-09-21T08:00:00'' (cps ''hello'') init_agent))"
    by (rule reach_build) (rule reach_init)
  show ?thesis
    using r hello_is_node [of id "''2025-09-21T08:00:00''"]
      hello_not_fact [of id "''2025-09-21T08:00:00''"] by auto
qed

text \<open>
  C1, as the code has it. In every state reached from the constructed agent by calls of
  \<^verbatim>\<open>build_4d_graph\<close> and by calls of \<^verbatim>\<open>integrate_facts\<close> that return, every key of the
  fact registry is a node id of the graph. In every state the agent can reach at all,
  every node id that is no key of the registry is the id of a command node (the first 8
  hexadecimal digits of a SHA-256). \<^verbatim>\<open>build_4d_graph\<close> never changes the fact registry,
  and when the command can be encoded its node \<^verbatim>\<open>sha256(command)[:8]\<close> is in the graph
  afterwards: it adds the command node to the graph only.
\<close>

theorem facts_are_nodes:
  "(returned W a \<longrightarrow> fact_keys a \<subseteq> node_ids a) \<and>
   (reachable W a \<longrightarrow> node_ids a \<subseteq> fact_keys a \<union> range sha8_bytes) \<and>
   facts_db (snd (build_4d_graph W now command a)) = facts_db a \<and>
   (encode_text command = Inr bs \<longrightarrow>
      sha8_bytes bs \<in> node_ids (snd (build_4d_graph W now command a)))"
  using returned_facts_nodes [of W a] reachable_nodes_facts [of W a]
    build_facts_eq [of W now command a] node_ids_build(2) [of command bs W now a]
  by blast

theorem facts_are_nodes_witness:
  "returned id (snd (build_4d_graph id ''2025-09-21T08:00:00'' (cps ''hello'') init_agent)) \<and>
   reachable id (snd (build_4d_graph id ''2025-09-21T08:00:00'' (cps ''hello'') init_agent)) \<and>
   encode_text (cps ''hello'') = Inr (encode ''hello'') \<and>
   fact_keys (snd (build_4d_graph id ''2025-09-21T08:00:00'' (cps ''hello'') init_agent))
     \<subseteq> node_ids (snd (build_4d_graph id ''2025-09-21T08:00:00'' (cps ''hello'') init_agent)) \<and>
   node_ids (snd (build_4d_graph id ''2025-09-21T08:00:00'' (cps ''hello'') init_agent))
     \<subseteq> fact_keys (snd (build_4d_graph id ''2025-09-21T08:00:00'' (cps ''hello'') init_agent))
         \<union> range sha8_bytes \<and>
   facts_db (snd (build_4d_graph id ''2025-09-21T08:00:00'' (cps ''hello'') init_agent))
     = facts_db init_agent \<and>
   sha8_bytes (encode ''hello'')
     \<in> node_ids (snd (build_4d_graph id ''2025-09-21T08:00:00'' (cps ''hello'') init_agent))"
proof -
  let ?A = "snd (build_4d_graph id ''2025-09-21T08:00:00'' (cps ''hello'') init_agent)"
  have r: "returned id ?A"
    by (rule ret_build) (rule ret_init)
  have r': "reachable id ?A"
    by (rule reach_build) (rule reach_init)
  have e: "encode_text (cps ''hello'') = Inr (encode ''hello'')"
    by (rule encode_text_cps)
  from facts_are_nodes [of id ?A "''2025-09-21T08:00:00''" "cps ''hello''" "encode ''hello''"]
    r r'
  have 1: "fact_keys ?A \<subseteq> node_ids ?A" and 2: "node_ids ?A \<subseteq> fact_keys ?A \<union> range sha8_bytes"
    by blast+
  from facts_are_nodes [of id init_agent "''2025-09-21T08:00:00''" "cps ''hello''" "encode ''hello''"]
    e
  have 3: "facts_db ?A = facts_db init_agent" and 4: "sha8_bytes (encode ''hello'') \<in> node_ids ?A"
    by blast+
  from r r' e 1 2 3 4 show ?thesis by blast
qed

text \<open>
  C2. The claim that a rejected input mutates no state fails for \<^verbatim>\<open>process\<close>: a command
  that is not a string raises AttributeError in \<^verbatim>\<open>_decompose_4d\<close>, after the context was
  created and updated. \<^verbatim>\<open>process(5, "ctxA")\<close> on a new orchestrator raises and leaves a
  context behind.
\<close>

theorem process_non_string_mutates:
  "\<not> is_str (PInt 5) \<and>
   fst (process (PInt 5) ''ctxA'' ''2025-09-21T08:00:00'' ''2025-09-21T08:00:01'' init_orchestrator)
     = Inl AttributeError \<and>
   snd (process (PInt 5) ''ctxA'' ''2025-09-21T08:00:00'' ''2025-09-21T08:00:01'' init_orchestrator)
     \<noteq> init_orchestrator"
  by (simp add: is_str_def process_def decompose_4d_def init_orchestrator_def dict_keys_def Let_def)

text \<open>
  C2, as the code has it: a facts payload that is not a mapping is rejected
  (AttributeError) by \<^verbatim>\<open>integrate_facts\<close> with the agent unchanged; a command that is not
  a string is rejected (AttributeError) by \<^verbatim>\<open>process\<close>, with the context of
  \<open>context_id\<close> created if absent, its counter incremented and its \<^verbatim>\<open>last_command\<close> and
  \<^verbatim>\<open>last_processed\<close> set, its coherence score and every other context unchanged.
\<close>

theorem invalid_input_rejected:
  "(\<not> is_mapping facts_data \<longrightarrow> integrate_facts clock facts_data a = (Inl AttributeError, a)) \<and>
   (\<not> is_str command \<longrightarrow>
      fst (process command cid now now' s) = Inl AttributeError \<and>
      map_of (contexts (snd (process command cid now now' s)))
        = (map_of (contexts s))(cid \<mapsto> touched command now now' (map_of (contexts s) cid)))"
  using integrate_not_mapping process_error_state decompose_not_str by blast

theorem invalid_input_rejected_witness:
  "\<not> is_mapping (PList []) \<and> \<not> is_str (PInt 5) \<and>
   integrate_facts (\<lambda>i. ''2025-09-21T08:00:00'') (PList []) init_agent = (Inl AttributeError, init_agent) \<and>
   fst (process (PInt 5) ''ctxA'' ''2025-09-21T08:00:00'' ''2025-09-21T08:00:01'' init_orchestrator)
     = Inl AttributeError \<and>
   map_of (contexts (snd (process (PInt 5) ''ctxA'' ''2025-09-21T08:00:00'' ''2025-09-21T08:00:01''
       init_orchestrator))) ''ctxA''
     = Some \<lparr>created = ''2025-09-21T08:00:00'', commands_processed = 1, coherence_score = 0,
             last_command = Some (PInt 5), last_processed = Some ''2025-09-21T08:00:01''\<rparr>"
  using invalid_input_rejected [of "PList []" "\<lambda>i. ''2025-09-21T08:00:00''" init_agent "PInt 5"
      "''ctxA''" "''2025-09-21T08:00:00''" "''2025-09-21T08:00:01''" init_orchestrator]
  by (simp add: is_mapping_def is_str_def touched_def init_orchestrator_def)

text \<open>
  C3. For a start node that is not in the graph \<^verbatim>\<open>get_causal_chain\<close> returns the empty
  list (\<open>causal_chain_absent\<close>). For a start node that is in the graph the claim asks for
  one path of records per node within \<open>max_depth\<close> hops. The code iterates over the node
  ids of the search result and then over the characters of each id, so it raises KeyError
  at the first character of the start node whenever that one-character string is not a
  node itself.
\<close>

theorem causal_chain_raises:
  "has_node (graph a) (c # cs) \<Longrightarrow> \<not> has_node (graph a) [c] \<Longrightarrow>
   get_causal_chain (c # cs) max_depth a = Inl (KeyError [c])"
proof -
  assume p: "has_node (graph a) (c # cs)" and n: "\<not> has_node (graph a) [c]"
  from shortest_path_starts_at_source [of "graph a" "c # cs" max_depth]
  obtain more where k: "dict_keys (single_source_shortest_path (graph a) (c # cs) max_depth) = (c # cs) # more"
    by blast
  from n have "map_of (g_nodes (graph a)) [c] = None"
    by (simp add: has_node_def in_keys_map_of)
  then have "chain_of (graph a) (c # cs) = Inl (KeyError [c])" by simp
  then have "chains_of (graph a) ((c # cs) # more) = Inl (KeyError [c])" by simp
  with p k show ?thesis by (simp add: get_causal_chain_def)
qed

theorem causal_chain_raises_witness:
  "has_node (graph init_agent) ''gym_move'' \<and> \<not> has_node (graph init_agent) ''g'' \<and>
   get_causal_chain ''gym_move'' 3 init_agent = Inl (KeyError ''g'')"
proof -
  have p: "has_node (graph init_agent) ''gym_move''"
    by (simp add: has_node_def init_agent_graph base_facts_def dict_keys_def)
  have n: "\<not> has_node (graph init_agent) ''g''"
    by (simp add: has_node_def init_agent_graph base_facts_def dict_keys_def)
  from p n causal_chain_raises [OF p n, of 3] show ?thesis by simp
qed

text \<open>
  C4. For every string command (the empty string too) and every context id,
  \<^verbatim>\<open>process\<close> returns a list of strings that is not empty. A command in which no
  classifier keyword occurs is generic and yields exactly the five templated strings,
  each of which contains the command as it was given. The empty string has no keyword.
\<close>

theorem process_never_fails:
  "(\<exists>r. fst (process (PStr c) cid now now' s) = Inr r \<and> r \<noteq> []) \<and>
   (\<not> any_in classifier_keywords (py_lower c) \<longrightarrow>
      fst (process (PStr c) cid now now' s) =
        Inr [''Analyze: '' @ c,
             ''Break down requirements for: '' @ c,
             ''Identify resources needed for: '' @ c,
             ''Create action plan for: '' @ c,
             ''Define success metrics for: '' @ c]) \<and>
   list_all (py_in c)
     [''Analyze: '' @ c,
      ''Break down requirements for: '' @ c,
      ''Identify resources needed for: '' @ c,
      ''Create action plan for: '' @ c,
      ''Define success metrics for: '' @ c] \<and>
   \<not> any_in classifier_keywords (py_lower '''')"
proof -
  from decompose_str [of c] obtain r where "decompose_4d (PStr c) = Inr r" and "5 \<le> length r"
    by blast
  then have a: "\<exists>r. fst (process (PStr c) cid now now' s) = Inr r \<and> r \<noteq> []"
    by (auto simp: process_fst)
  have b: "\<not> any_in classifier_keywords (py_lower c) \<longrightarrow>
      fst (process (PStr c) cid now now' s) = Inr (generic_decomposition c)"
    by (simp add: process_fst decompose_generic classify_generic)
  have e: "list_all (py_in c) (generic_decomposition c)"
    unfolding generic_decomposition_def by (simp only: list_all_Nil_iff list_all_Cons_iff py_in_append simp_thms)
  from a b e no_keyword_empty show ?thesis
    unfolding generic_decomposition_def by blast
qed

theorem process_never_fails_witness:
  "\<not> any_in classifier_keywords (py_lower ''hello'') \<and>
   fst (process (PStr ''hello'') ''ctxA'' ''2025-09-21T08:00:00'' ''2025-09-21T08:00:01'' init_orchestrator) =
        Inr [''Analyze: hello'',
             ''Break down requirements for: hello'',
             ''Identify resources needed for: hello'',
             ''Create action plan for: hello'',
             ''Define success metrics for: hello'']"
  using process_never_fails [of "''hello''" "''ctxA''" "''2025-09-21T08:00:00''" "''2025-09-21T08:00:01''"
      init_orchestrator] no_keyword_hello
  by simp

text \<open>
  C5. For every graph, the coherence is \<open>min (edge_count / node_count) 1\<close> when the graph
  has at least two nodes, and \<open>0\<close> when it has none or one.
\<close>

theorem coherence_formula:
  "calculate_coherence g =
     (if 2 \<le> length (g_nodes g)
      then min (of_nat (length (g_edges g)) / of_nat (length (g_nodes g))) 1
      else 0)"
  by (simp add: calculate_coherence_def Let_def)

text \<open>
  C6. After every \<^verbatim>\<open>process\<close> call on a string command the coherence score of the
  context is \<open>round (min (commands_processed * len result / 10) 1) 3\<close>, with the counter
  as the call left it and \<open>result\<close> the list returned; with a counter of 2 and a list of
  5 items the score is 1.
\<close>

theorem context_coherence_after_process:
  "\<exists>r ctx. fst (process (PStr c) cid now now' s) = Inr r \<and>
      map_of (contexts (snd (process (PStr c) cid now now' s))) cid = Some ctx \<and>
      coherence_score ctx
        = py_round (min (of_int (commands_processed ctx * int (length r)) / 10) 1) 3 \<and>
      (commands_processed ctx = 2 \<and> length r = 5 \<longrightarrow> coherence_score ctx = 1)"
proof -
  from decompose_str [of c] obtain r where r: "decompose_4d (PStr c) = Inr r" by blast
  let ?t = "touched (PStr c) now now' (map_of (contexts s) cid)"
  let ?ctx = "?t\<lparr>coherence_score := py_round (min (of_int (commands_processed ?t * int (length r)) / 10) 1) 3\<rparr>"
  have 1: "fst (process (PStr c) cid now now' s) = Inr r" by (simp add: process_fst r)
  have 2: "map_of (contexts (snd (process (PStr c) cid now now' s))) cid = Some ?ctx"
    by (rule process_ok_state [OF r])
  have 3: "coherence_score ?ctx = py_round (min (of_int (commands_processed ?ctx * int (length r)) / 10) 1) 3"
    by simp
  have 4: "commands_processed ?ctx = 2 \<and> length r = 5 \<longrightarrow> coherence_score ?ctx = 1"
    by (simp add: py_round_one)
  from 1 2 3 4 show ?thesis by blast
qed

theorem context_coherence_after_process_witness:
  "\<exists>r ctx.
      fst (process (PStr ''hello'') ''ctxA'' ''2025-09-21T08:00:02'' ''2025-09-21T08:00:03''
        (snd (process (PStr ''hello'') ''ctxA'' ''2025-09-21T08:00:00'' ''2025-09-21T08:00:01''
          init_orchestrator))) = Inr r \<and>
      map_of (contexts (snd (process (PStr ''hello'') ''ctxA'' ''2025-09-21T08:00:02''
        ''2025-09-21T08:00:03''
        (snd (process (PStr ''hello'') ''ctxA'' ''2025-09-21T08:00:00'' ''2025-09-21T08:00:01''
          init_orchestrator))))) ''ctxA'' = Some ctx \<and>
      commands_processed ctx = 2 \<and> length r = 5 \<and> coherence_score ctx = 1"
proof -
  let ?s1 = "snd (process (PStr ''hello'') ''ctxA'' ''2025-09-21T08:00:00'' ''2025-09-21T08:00:01''
          init_orchestrator)"
  from context_coherence_after_process [of "''hello''" "''ctxA''" "''2025-09-21T08:00:02''"
      "''2025-09-21T08:00:03''" ?s1]
  obtain r ctx where
    r: "fst (process (PStr ''hello'') ''ctxA'' ''2025-09-21T08:00:02'' ''2025-09-21T08:00:03'' ?s1) = Inr r"
    and c: "map_of (contexts (snd (process (PStr ''hello'') ''ctxA'' ''2025-09-21T08:00:02''
        ''2025-09-21T08:00:03'' ?s1))) ''ctxA'' = Some ctx"
    and i: "commands_processed ctx = 2 \<and> length r = 5 \<longrightarrow> coherence_score ctx = 1"
    by blast
  from r have "length r = 5"
    by (auto simp: process_fst decompose_hello generic_decomposition_def)
  moreover from c have "commands_processed ctx = 2"
    by (auto simp: process_hello_twice)
  ultimately show ?thesis using r c i by blast
qed

text \<open>
  C7. On the constructed agent (three seed facts, no edge), \<^verbatim>\<open>build_4d_graph("plan SF move")\<close>
  leaves exactly one edge, from the command node to \<^verbatim>\<open>gym_move\<close> with the relation
  \<^verbatim>\<open>action\<close>, and returns the coherence \<open>1/4\<close> (four nodes, one edge).
\<close>

theorem build_graph_plan_sf_move:
  "g_edges (graph init_agent) = [] \<and>
   length (g_nodes (graph init_agent)) = 3 \<and>
   g_edges (graph (snd (build_4d_graph W now (cps ''plan SF move'') init_agent)))
     = [((sha8 ''plan SF move'', ''gym_move''), [(''relation'', PStr (cps ''action''))])] \<and>
   fst (build_4d_graph W now (cps ''plan SF move'') init_agent)
     = Inr \<lparr>coherence = 1 / 4, nodes = 4, edges = 1,
            graph_hash = sha8 (str_list [''mom_birthday'', ''gym_move'', ''ecosystem_bind'',
                                         sha8 ''plan SF move''])\<rparr>"
  by (simp add: result_of_build [OF add_command_node_cps] graph_after_plan_sf_move init_agent_graph
      calculate_coherence_def base_facts_def dict_keys_def)

text \<open>
  C8. The claim that adding the command node yields a node id for every command text fails
  for a text that holds a surrogate code point, which a command parsed from JSON can:
  \<^verbatim>\<open>command.encode()\<close> raises UnicodeEncodeError, no node id is returned and nothing is
  written, by the step itself and so by \<^verbatim>\<open>build_4d_graph\<close>.
\<close>

theorem add_command_node_surrogate_raises:
  "add_command_node ''2025-09-21T08:00:00'' [0xD800] (graph init_agent) = Inl UnicodeEncodeError \<and>
   build_4d_graph id ''2025-09-21T08:00:00'' [0xD800] init_agent = (Inl UnicodeEncodeError, init_agent)"
proof -
  have "encode_text [0xD800] = Inl UnicodeEncodeError"
    by (simp add: utf8_cp_def)
  then show ?thesis
    by (simp add: add_command_node_raises build_raises)
qed

text \<open>
  C8, as the code has it. For every command text without a surrogate (every text that
  UTF-8 can encode) and every graph, adding the command node is idempotent: a second call
  with the same text returns the same node id, which is the first 8 hexadecimal digits of
  the SHA-256 of the encoded command, and leaves the node ids and the node count as they
  were after the first call; the same holds for the node count reported by a second
  \<^verbatim>\<open>build_4d_graph\<close> with the same command. For a command text that holds a surrogate
  every call raises UnicodeEncodeError and changes nothing.
\<close>

theorem add_command_node_idempotent:
  "(\<not> has_surrogate command \<longrightarrow>
      (\<exists>bs g1 g2.
         encode_text command = Inr bs \<and>
         add_command_node now command g = Inr (sha8_bytes bs, g1) \<and>
         add_command_node now' command g1 = Inr (sha8_bytes bs, g2) \<and>
         length (sha8_bytes bs) = 8 \<and> set (sha8_bytes bs) \<subseteq> hex_digits \<and>
         dict_keys (g_nodes g2) = dict_keys (g_nodes g1) \<and>
         length (g_nodes g2) = length (g_nodes g1)) \<and>
      (\<exists>r1 r2.
         fst (build_4d_graph W now command a) = Inr r1 \<and>
         fst (build_4d_graph W now' command (snd (build_4d_graph W now command a))) = Inr r2 \<and>
         nodes r2 = nodes r1)) \<and>
   (has_surrogate command \<longrightarrow>
      add_command_node now command g = Inl UnicodeEncodeError \<and>
      build_4d_graph W now command a = (Inl UnicodeEncodeError, a))"
proof (intro conjI impI)
  assume "has_surrogate command"
  then have e: "encode_text command = Inl UnicodeEncodeError" by (rule encode_text_surrogate)
  show "add_command_node now command g = Inl UnicodeEncodeError"
    by (rule add_command_node_raises [OF e])
  show "build_4d_graph W now command a = (Inl UnicodeEncodeError, a)"
    by (rule build_raises [OF e])
next
  assume "\<not> has_surrogate command"
  then obtain bs where e: "encode_text command = Inr bs"
    using encode_text_no_surrogate by blast
  let ?h = "sha8_bytes bs"
  let ?attr = "\<lambda>t. [(''content'', PStr command),
             (''timestamp'', PStr (cps t)),
             (''type'', PStr (cps ''command'')),
             (''attribution'', PStr (cps ''@AxiomHive @devdollzai''))]"
  let ?g1 = "add_node ?h (?attr now) g"
  let ?g2 = "add_node ?h (?attr now') ?g1"
  have a1: "add_command_node now command g = Inr (?h, ?g1)"
    by (rule add_command_node_returns [OF e])
  have a2: "add_command_node now' command ?g1 = Inr (?h, ?g2)"
    by (rule add_command_node_returns [OF e])
  have k: "dict_keys (g_nodes ?g2) = dict_keys (g_nodes ?g1)"
    by (simp add: keys_add_node)
  from k have l: "length (g_nodes ?g2) = length (g_nodes ?g1)"
    unfolding dict_keys_def by (rule map_eq_imp_length_eq)
  have s: "set ?h \<subseteq> hex_digits" using set_sha8_bytes by blast
  from e a1 a2 k l s length_sha8_bytes [of bs]
  show "\<exists>bs g1 g2.
         encode_text command = Inr bs \<and>
         add_command_node now command g = Inr (sha8_bytes bs, g1) \<and>
         add_command_node now' command g1 = Inr (sha8_bytes bs, g2) \<and>
         length (sha8_bytes bs) = 8 \<and> set (sha8_bytes bs) \<subseteq> hex_digits \<and>
         dict_keys (g_nodes g2) = dict_keys (g_nodes g1) \<and>
         length (g_nodes g2) = length (g_nodes g1)"
    by blast
  let ?a1 = "snd (build_4d_graph W now command a)"
  have b1: "add_command_node now command (graph a) = Inr (?h, add_node ?h (?attr now) (graph a))"
    by (rule add_command_node_returns [OF e])
  have b2: "add_command_node now' command (graph ?a1) = Inr (?h, add_node ?h (?attr now') (graph ?a1))"
    by (rule add_command_node_returns [OF e])
  have "dict_keys (g_nodes (graph (snd (build_4d_graph W now' command ?a1))))
      = dict_keys (g_nodes (graph ?a1))"
    by (simp only: build_graph_eq [OF b2] build_graph_eq [OF b1] keys_build_rel_again)
  then have n: "length (g_nodes (graph (snd (build_4d_graph W now' command ?a1))))
      = length (g_nodes (graph ?a1))"
    unfolding dict_keys_def by (rule map_eq_imp_length_eq)
  from result_of_build [OF b1, of W] result_of_build [OF b2, of W] n
  show "\<exists>r1 r2.
         fst (build_4d_graph W now command a) = Inr r1 \<and>
         fst (build_4d_graph W now' command (snd (build_4d_graph W now command a))) = Inr r2 \<and>
         nodes r2 = nodes r1"
    by simp
qed

theorem add_command_node_idempotent_witness:
  "\<not> has_surrogate (cps ''hello'') \<and> has_surrogate [0xD800] \<and>
   (\<exists>bs g1 g2.
      encode_text (cps ''hello'') = Inr bs \<and>
      add_command_node ''2025-09-21T08:00:00'' (cps ''hello'') (graph init_agent)
        = Inr (sha8_bytes bs, g1) \<and>
      add_command_node ''2025-09-21T08:00:01'' (cps ''hello'') g1 = Inr (sha8_bytes bs, g2) \<and>
      length (g_nodes g2) = length (g_nodes g1)) \<and>
   add_command_node ''2025-09-21T08:00:00'' [0xD800] (graph init_agent) = Inl UnicodeEncodeError"
proof -
  have n: "\<not> has_surrogate (cps ''hello'')" by (rule cps_no_surrogate)
  have y: "has_surrogate [0xD800]" by (simp add: has_surrogate_def)
  from add_command_node_idempotent [of "cps ''hello''" "''2025-09-21T08:00:00''" "graph init_agent"
      "''2025-09-21T08:00:01''" id init_agent] n
  have 1: "\<exists>bs g1 g2.
      encode_text (cps ''hello'') = Inr bs \<and>
      add_command_node ''2025-09-21T08:00:00'' (cps ''hello'') (graph init_agent)
        = Inr (sha8_bytes bs, g1) \<and>
      add_command_node ''2025-09-21T08:00:01'' (cps ''hello'') g1 = Inr (sha8_bytes bs, g2) \<and>
      length (g_nodes g2) = length (g_nodes g1)"
    by blast
  from add_command_node_idempotent [of "[0xD800]" "''2025-09-21T08:00:00''" "graph init_agent"
      "''2025-09-21T08:00:01''" id init_agent] y
  have 2: "add_command_node ''2025-09-21T08:00:00'' [0xD800] (graph init_agent) = Inl UnicodeEncodeError"
    by blast
  from n y 1 2 show ?thesis by blast
qed

text \<open>
  C9. \<^verbatim>\<open>clear_context\<close> returns true for a context that exists and removes it, so that a
  second call returns false and changes nothing; for an id that has no context it returns
  false and changes nothing. No other context is touched.
\<close>

theorem clear_context_once:
  "(cid \<in> set (dict_keys (contexts s)) \<longrightarrow>
      fst (clear_context cid s) = True \<and>
      cid \<notin> set (dict_keys (contexts (snd (clear_context cid s)))) \<and>
      fst (clear_context cid (snd (clear_context cid s))) = False \<and>
      snd (clear_context cid (snd (clear_context cid s))) = snd (clear_context cid s)) \<and>
   (cid \<notin> set (dict_keys (contexts s)) \<longrightarrow>
      fst (clear_context cid s) = False \<and> snd (clear_context cid s) = s) \<and>
   map_of (contexts (snd (clear_context cid s))) = (map_of (contexts s))(cid := None)"
  by (auto simp: clear_context_def dict_keys_def delete_keys delete_conv' fun_eq_iff
      map_of_eq_None_iff)

theorem clear_context_once_witness:
  "''ctxA'' \<in> set (dict_keys (contexts (snd (process (PStr ''hello'') ''ctxA''
       ''2025-09-21T08:00:00'' ''2025-09-21T08:00:01'' init_orchestrator)))) \<and>
   fst (clear_context ''ctxA'' (snd (process (PStr ''hello'') ''ctxA''
       ''2025-09-21T08:00:00'' ''2025-09-21T08:00:01'' init_orchestrator))) = True \<and>
   fst (clear_context ''ctxA'' (snd (clear_context ''ctxA'' (snd (process (PStr ''hello'') ''ctxA''
       ''2025-09-21T08:00:00'' ''2025-09-21T08:00:01'' init_orchestrator))))) = False \<and>
   ''ctxB'' \<notin> set (dict_keys (contexts init_orchestrator)) \<and>
   fst (clear_context ''ctxB'' init_orchestrator) = False"
  using clear_context_once [of "''ctxA''" "snd (process (PStr ''hello'') ''ctxA''
       ''2025-09-21T08:00:00'' ''2025-09-21T08:00:01'' init_orchestrator)"]
    clear_context_once [of "''ctxB''" init_orchestrator]
    process_creates_context [of "''ctxA''" "PStr ''hello''" "''2025-09-21T08:00:00''"
       "''2025-09-21T08:00:01''" init_orchestrator]
  by (simp add: init_orchestrator_def dict_keys_def)

text \<open>
  C10. In every state the agent can reach, every edge of the graph points to one of the
  three seed facts \<^verbatim>\<open>mom_birthday\<close>, \<^verbatim>\<open>gym_move\<close>, \<^verbatim>\<open>ecosystem_bind\<close>.
\<close>

theorem edge_targets_are_seeds:
  "reachable W a \<Longrightarrow> edge_targets (graph a) \<subseteq> {''mom_birthday'', ''gym_move'', ''ecosystem_bind''}"
proof (induction rule: reachable.induct)
  case reach_init
  show ?case by (simp add: edge_targets_def init_agent_graph dict_keys_def)
next
  case (reach_build a now command)
  with build_edges_targets [of W now command a] show ?case by blast
next
  case (reach_integrate a clock facts_data)
  then show ?case by (simp add: edge_targets_def integrate_facts_edges)
qed

theorem edge_targets_are_seeds_witness:
  "reachable id (snd (build_4d_graph id ''2025-09-21T08:00:00'' (cps ''plan SF move'') init_agent)) \<and>
   edge_targets (graph (snd (build_4d_graph id ''2025-09-21T08:00:00'' (cps ''plan SF move'') init_agent)))
     = {''gym_move''} \<and>
   edge_targets (graph (snd (build_4d_graph id ''2025-09-21T08:00:00'' (cps ''plan SF move'') init_agent)))
     \<subseteq> {''mom_birthday'', ''gym_move'', ''ecosystem_bind''}"
proof -
  have r: "reachable id (snd (build_4d_graph id ''2025-09-21T08:00:00'' (cps ''plan SF move'') init_agent))"
    by (rule reach_build) (rule reach_init)
  have "edge_targets (graph (snd (build_4d_graph id ''2025-09-21T08:00:00'' (cps ''plan SF move'') init_agent)))
     = {''gym_move''}"
    by (simp add: graph_after_plan_sf_move edge_targets_def dict_keys_def)
  with r edge_targets_are_seeds [OF r] show ?thesis by simp
qed

end
